theory Spec2Isabelle
  imports Complex_Main "HOL-Library.Word"
begin

unbundle bit_operations_syntax

section \<open>DTrackSDK compatibility facades: DTrack, DTrack2 and DTracklib\<close>

text \<open>
  The three facade classes of \<^verbatim>\<open>Compatibility/\<close> wrap one \<^verbatim>\<open>DTrackSDK\<close> object. Each keeps
  its own copy of the last frame (one \<^verbatim>\<open>std::vector\<close> and one \<^verbatim>\<open>int\<close> count per entity type),
  refreshed by \<^verbatim>\<open>receive()\<close> and read by the \<^verbatim>\<open>get_...\<close> accessors.

  Conventions of the embedding:
  \<^item> a C \<^verbatim>\<open>int\<close> is an \<^typ>\<open>int\<close> (no arithmetic is done on the values that are modelled, they
    are compared and copied); \<^verbatim>\<open>unsigned long\<close> is a 64 bit word; \<^verbatim>\<open>unsigned short\<close> a 16 bit word;
  \<^item> the type of \<^verbatim>\<open>double\<close> values is the type variable \<open>'d\<close>, the type of \<^verbatim>\<open>float\<close> values the
    type variable \<open>'f\<close>, and the conversion \<^verbatim>\<open>(float)x\<close> is a parameter \<open>cast\<close> of every function
    that converts;
  \<^item> a fixed size array is a list, a \<^verbatim>\<open>std::vector\<close> is a list;
  \<^item> reading a vector outside its bounds, dereferencing a null pointer and resizing a vector to
    a negative size are results of their own, of type \<open>fault\<close>;
  \<^item> a member function that changes the object returns the changed object.
\<close>

datatype fault = OutOfRange | NullPointer | LengthError

subsection \<open>The SDK object behind the facades\<close>

text \<open>
  Modelled from the spec: the entity records of the SDK (\<^verbatim>\<open>DTrack_Body_Type_d\<close> and its siblings,
  declared in \<^verbatim>\<open>include/DTrackSDK.hpp\<close>, which is not among the sources). The fields are the ones
  the facades read; scalars are \<^verbatim>\<open>double\<close>. The arrays are fixed size arrays that hold the
  protocol maxima, "16 buttons, 8 joystick axes" and 5 fingers, 3 location and 9 rotation
  components, so every element the facades read exists.
\<close>

record 'd DTrack_Body_Type_d =
  sb_id :: int
  sb_quality :: 'd
  sb_loc :: "'d list"
  sb_rot :: "'d list"

record 'd DTrack_FlyStick_Type_d =
  sf_id :: int
  sf_quality :: 'd
  sf_num_button :: int
  sf_button :: "int list"
  sf_num_joystick :: int
  sf_joystick :: "'d list"
  sf_loc :: "'d list"
  sf_rot :: "'d list"

record 'd DTrack_MeaTool_Type_d =
  st_id :: int
  st_quality :: 'd
  st_num_button :: int
  st_button :: "int list"
  st_loc :: "'d list"
  st_rot :: "'d list"

record 'd DTrack_Finger_Type_d =
  sg_loc :: "'d list"
  sg_rot :: "'d list"
  sg_radiustip :: 'd
  sg_lengthphalanx :: "'d list"
  sg_anglephalanx :: "'d list"

record 'd DTrack_Hand_Type_d =
  sh_id :: int
  sh_quality :: 'd
  sh_lr :: int
  sh_nfinger :: int
  sh_loc :: "'d list"
  sh_rot :: "'d list"
  sh_finger :: "'d DTrack_Finger_Type_d list"

record 'd DTrack_Marker_Type_d =
  sm_id :: int
  sm_quality :: 'd
  sm_loc :: "'d list"

text \<open>
  Modelled from the spec: the state of the \<^verbatim>\<open>DTrackSDK\<close> object that the facades can observe
  (the class is not among the sources). Its current frame holds one ordered sequence per entity
  type, and "entity-count fields and array lengths are always consistent (count == length)", so a
  count is the length of its sequence. The last device-side error of the command channel is a
  numeric code and a description.
\<close>

record 'd DTrackSDK =
  localDataPortValid :: bool
  sdk_body :: "'d DTrack_Body_Type_d list"
  sdk_flystick :: "'d DTrack_FlyStick_Type_d list"
  sdk_meatool :: "'d DTrack_MeaTool_Type_d list"
  sdk_hand :: "'d DTrack_Hand_Type_d list"
  sdk_marker :: "'d DTrack_Marker_Type_d list"
  lastDTrackError :: int
  lastDTrackErrorDescription :: string

text \<open>
  Modelled from the spec: the accessors of the SDK, "return the i-th element of the current
  Frame's collection for that type if \<open>0 <= i < count\<close>". They return a pointer; outside that
  range there is no element to point to, which is \<open>None\<close>.
\<close>

definition sdk_get :: "'a list \<Rightarrow> int \<Rightarrow> 'a option" where
  "sdk_get xs i = (if 0 \<le> i \<and> i < int (length xs) then Some (xs ! nat i) else None)"

definition isLocalDataPortValid :: "'d DTrackSDK \<Rightarrow> bool" where
  "isLocalDataPortValid s = localDataPortValid s"

definition getNumBody :: "'d DTrackSDK \<Rightarrow> int" where
  "getNumBody s = int (length (sdk_body s))"

definition getBody :: "'d DTrackSDK \<Rightarrow> int \<Rightarrow> 'd DTrack_Body_Type_d option" where
  "getBody s i = sdk_get (sdk_body s) i"

definition getNumFlyStick :: "'d DTrackSDK \<Rightarrow> int" where
  "getNumFlyStick s = int (length (sdk_flystick s))"

definition getFlyStick :: "'d DTrackSDK \<Rightarrow> int \<Rightarrow> 'd DTrack_FlyStick_Type_d option" where
  "getFlyStick s i = sdk_get (sdk_flystick s) i"

definition getNumMeaTool :: "'d DTrackSDK \<Rightarrow> int" where
  "getNumMeaTool s = int (length (sdk_meatool s))"

definition getMeaTool :: "'d DTrackSDK \<Rightarrow> int \<Rightarrow> 'd DTrack_MeaTool_Type_d option" where
  "getMeaTool s i = sdk_get (sdk_meatool s) i"

definition getNumHand :: "'d DTrackSDK \<Rightarrow> int" where
  "getNumHand s = int (length (sdk_hand s))"

definition getHand :: "'d DTrackSDK \<Rightarrow> int \<Rightarrow> 'd DTrack_Hand_Type_d option" where
  "getHand s i = sdk_get (sdk_hand s) i"

definition getNumMarker :: "'d DTrackSDK \<Rightarrow> int" where
  "getNumMarker s = int (length (sdk_marker s))"

definition getMarker :: "'d DTrackSDK \<Rightarrow> int \<Rightarrow> 'd DTrack_Marker_Type_d option" where
  "getMarker s i = sdk_get (sdk_marker s) i"

definition getLastDTrackError :: "'d DTrackSDK \<Rightarrow> int" where
  "getLastDTrackError s = lastDTrackError s"

definition getLastDTrackErrorDescription :: "'d DTrackSDK \<Rightarrow> string" where
  "getLastDTrackErrorDescription s = lastDTrackErrorDescription s"

text \<open>
  The calls of the SDK that talk to the network are parameters of the functions that make them:
  \<^item> \<open>recv\<close>, for \<^verbatim>\<open>sdk->receive()\<close>: the result and the SDK object after the call;
  \<^item> \<open>sendCommand\<close>, for \<^verbatim>\<open>sdk->sendCommand(str)\<close>: likewise, for the string sent;
  \<^item> \<open>sendDTrack2Command\<close>, for \<^verbatim>\<open>sdk->sendDTrack2Command(str, NULL)\<close>: the \<^verbatim>\<open>int\<close> result and the
    SDK object after the exchange.
\<close>

type_synonym 'd sdk_receive = "'d DTrackSDK \<Rightarrow> bool \<times> 'd DTrackSDK"
type_synonym 'd sdk_sendCommand = "string \<Rightarrow> 'd DTrackSDK \<Rightarrow> bool \<times> 'd DTrackSDK"
type_synonym 'd sdk_sendDTrack2Command = "string \<Rightarrow> 'd DTrackSDK \<Rightarrow> int \<times> 'd DTrackSDK"

subsection \<open>Entity records of DTrack and DTrack2\<close>

text \<open>
  \<^verbatim>\<open>dtrack_body_type\<close>, \<^verbatim>\<open>dtrack_flystick_type\<close>, \<^verbatim>\<open>dtrack_meatool_type\<close>, \<^verbatim>\<open>dtrack_hand_type\<close> and
  \<^verbatim>\<open>dtrack_marker_type\<close> of \<^verbatim>\<open>DTrack.hpp\<close>. The \<^verbatim>\<open>dtrack2_..._type\<close> structs of \<^verbatim>\<open>DTrack2.hpp\<close> have
  the same fields of the same types and array sizes, and \<^verbatim>\<open>dtracklib_glove_type\<close> and
  \<^verbatim>\<open>dtracklib_marker_type\<close> are the hand and the marker once more.
\<close>

record 'f dtrack_body_type =
  b_id :: int
  b_quality :: 'f
  b_loc :: "'f list"
  b_rot :: "'f list"

definition DTRACK_FLYSTICK_MAX_BUTTON :: nat where
  "DTRACK_FLYSTICK_MAX_BUTTON = 16"

definition DTRACK_FLYSTICK_MAX_JOYSTICK :: nat where
  "DTRACK_FLYSTICK_MAX_JOYSTICK = 8"

record 'f dtrack_flystick_type =
  fs_id :: int
  fs_quality :: 'f
  fs_num_button :: int
  fs_button :: "int list"
  fs_num_joystick :: int
  fs_joystick :: "'f list"
  fs_loc :: "'f list"
  fs_rot :: "'f list"

definition DTRACK_MEATOOL_MAX_BUTTON :: nat where
  "DTRACK_MEATOOL_MAX_BUTTON = 1"

record 'f dtrack_meatool_type =
  mt_id :: int
  mt_quality :: 'f
  mt_num_button :: int
  mt_button :: "int list"
  mt_loc :: "'f list"
  mt_rot :: "'f list"

definition DTRACK_HAND_MAX_FINGER :: nat where
  "DTRACK_HAND_MAX_FINGER = 5"

record 'f dtrack_finger_type =
  fg_loc :: "'f list"
  fg_rot :: "'f list"
  fg_radiustip :: 'f
  fg_lengthphalanx :: "'f list"
  fg_anglephalanx :: "'f list"

record 'f dtrack_hand_type =
  h_id :: int
  h_quality :: 'f
  h_lr :: int
  h_nfinger :: int
  h_loc :: "'f list"
  h_rot :: "'f list"
  h_finger :: "'f dtrack_finger_type list"

record 'f dtrack_marker_type =
  m_id :: int
  m_quality :: 'f
  m_loc :: "'f list"

text \<open>
  \<^verbatim>\<open>memset(&x, 0, sizeof(x))\<close>, which is also the value of the elements that \<^verbatim>\<open>vector::resize\<close>
  appends: every scalar is zero, every array has its declared size.
\<close>

definition zero_body :: "('f::zero) dtrack_body_type" where
  "zero_body = \<lparr>b_id = 0, b_quality = 0, b_loc = replicate 3 0, b_rot = replicate 9 0\<rparr>"

definition zero_flystick :: "('f::zero) dtrack_flystick_type" where
  "zero_flystick =
     \<lparr>fs_id = 0, fs_quality = 0, fs_num_button = 0,
      fs_button = replicate DTRACK_FLYSTICK_MAX_BUTTON 0, fs_num_joystick = 0,
      fs_joystick = replicate DTRACK_FLYSTICK_MAX_JOYSTICK 0,
      fs_loc = replicate 3 0, fs_rot = replicate 9 0\<rparr>"

definition zero_meatool :: "('f::zero) dtrack_meatool_type" where
  "zero_meatool =
     \<lparr>mt_id = 0, mt_quality = 0, mt_num_button = 0,
      mt_button = replicate DTRACK_MEATOOL_MAX_BUTTON 0,
      mt_loc = replicate 3 0, mt_rot = replicate 9 0\<rparr>"

definition zero_finger :: "('f::zero) dtrack_finger_type" where
  "zero_finger =
     \<lparr>fg_loc = replicate 3 0, fg_rot = replicate 9 0, fg_radiustip = 0,
      fg_lengthphalanx = replicate 3 0, fg_anglephalanx = replicate 2 0\<rparr>"

definition zero_hand :: "('f::zero) dtrack_hand_type" where
  "zero_hand =
     \<lparr>h_id = 0, h_quality = 0, h_lr = 0, h_nfinger = 0,
      h_loc = replicate 3 0, h_rot = replicate 9 0,
      h_finger = replicate DTRACK_HAND_MAX_FINGER zero_finger\<rparr>"

definition zero_marker :: "('f::zero) dtrack_marker_type" where
  "zero_marker = \<lparr>m_id = 0, m_quality = 0, m_loc = replicate 3 0\<rparr>"

subsection \<open>Vectors and the copy loops\<close>

text \<open>\<^verbatim>\<open>v[i]\<close> for an \<^verbatim>\<open>int\<close> index: a read outside the vector is a fault.\<close>

definition vector_index :: "'a list \<Rightarrow> int \<Rightarrow> fault + 'a" where
  "vector_index v i = (if 0 \<le> i \<and> i < int (length v) then Inr (v ! nat i) else Inl OutOfRange)"

text \<open>
  \<^verbatim>\<open>v.resize(n)\<close> for an \<^verbatim>\<open>int\<close> n: the first n elements are kept, zeroed elements are appended
  up to size n; a negative n is converted to a size beyond \<^verbatim>\<open>max_size()\<close> and the call throws.
\<close>

definition vector_resize :: "int \<Rightarrow> 'a \<Rightarrow> 'a list \<Rightarrow> fault + 'a list" where
  "vector_resize n z v =
     (if n < 0 then Inl LengthError
      else Inr (take (nat n) v @ replicate (nat n - length v) z))"

text \<open>
  \<^verbatim>\<open>for (int j = 0; j < n; j++) dst[j] = (float)src[j];\<close> on a destination array of size n
  (without the cast, \<open>cast\<close> is the identity).
\<close>

definition copy_array :: "nat \<Rightarrow> ('a \<Rightarrow> 'b) \<Rightarrow> 'a list \<Rightarrow> 'b list" where
  "copy_array n cast src = map (\<lambda>j. cast (src ! j)) [0..<n]"

text \<open>
  The loop \<^verbatim>\<open>for (int i = 0; i < n; i++) { src = sdk->getX(i); dst = &act_x.at(i); ... }\<close> over the
  indices still to visit: \<^verbatim>\<open>at\<close> throws outside the vector, then the fields of \<^verbatim>\<open>*src\<close> are read,
  which needs \<^verbatim>\<open>src\<close> not to be null, and written into \<^verbatim>\<open>*dst\<close> by \<open>upd\<close>.
\<close>

fun copy_loop ::
  "(int \<Rightarrow> 's option) \<Rightarrow> ('s \<Rightarrow> 't \<Rightarrow> 't) \<Rightarrow> nat list \<Rightarrow> 't list \<Rightarrow> fault + 't list" where
  "copy_loop get upd [] v = Inr v"
| "copy_loop get upd (i # is) v =
     (if \<not> i < length v then Inl OutOfRange
      else case get (int i) of
        None \<Rightarrow> Inl NullPointer
      | Some src \<Rightarrow> copy_loop get upd is (v[i := upd src (v ! i)]))"

text \<open>
  One block of \<^verbatim>\<open>receive()\<close>: \<^verbatim>\<open>act_x.resize(act_num_x)\<close>, then the loop over
  \<^verbatim>\<open>0 .. act_num_x - 1\<close>.
\<close>

definition copy_entities ::
  "int \<Rightarrow> (int \<Rightarrow> 's option) \<Rightarrow> ('s \<Rightarrow> 't \<Rightarrow> 't) \<Rightarrow> 't \<Rightarrow> 't list \<Rightarrow> fault + 't list" where
  "copy_entities n get upd z v =
     (case vector_resize n z v of
        Inl e \<Rightarrow> Inl e
      | Inr v' \<Rightarrow> copy_loop get upd [0..<nat n] v')"

text \<open>The loop bodies of \<^verbatim>\<open>DTrack::receive\<close> and \<^verbatim>\<open>DTrack2::receive\<close>, one per entity type.\<close>

definition copy_body ::
  "('d \<Rightarrow> 'f) \<Rightarrow> 'd DTrack_Body_Type_d \<Rightarrow> 'f dtrack_body_type \<Rightarrow> 'f dtrack_body_type" where
  "copy_body cast dtbt dtbt2 =
     dtbt2\<lparr>b_id := sb_id dtbt,
           b_quality := cast (sb_quality dtbt),
           b_loc := copy_array 3 cast (sb_loc dtbt),
           b_rot := copy_array 9 cast (sb_rot dtbt)\<rparr>"

definition copy_flystick ::
  "('d \<Rightarrow> 'f) \<Rightarrow> 'd DTrack_FlyStick_Type_d \<Rightarrow> 'f dtrack_flystick_type \<Rightarrow> 'f dtrack_flystick_type" where
  "copy_flystick cast dtfst dtfst2 =
     dtfst2\<lparr>fs_id := sf_id dtfst,
            fs_quality := cast (sf_quality dtfst),
            fs_num_button := sf_num_button dtfst,
            fs_button := copy_array DTRACK_FLYSTICK_MAX_BUTTON (\<lambda>x. x) (sf_button dtfst),
            fs_num_joystick := sf_num_joystick dtfst,
            fs_joystick := copy_array DTRACK_FLYSTICK_MAX_JOYSTICK cast (sf_joystick dtfst),
            fs_loc := copy_array 3 cast (sf_loc dtfst),
            fs_rot := copy_array 9 cast (sf_rot dtfst)\<rparr>"

definition copy_meatool ::
  "('d \<Rightarrow> 'f) \<Rightarrow> 'd DTrack_MeaTool_Type_d \<Rightarrow> 'f dtrack_meatool_type \<Rightarrow> 'f dtrack_meatool_type" where
  "copy_meatool cast dtmtt dtmtt2 =
     dtmtt2\<lparr>mt_id := st_id dtmtt,
            mt_quality := cast (st_quality dtmtt),
            mt_num_button := st_num_button dtmtt,
            mt_button := copy_array DTRACK_MEATOOL_MAX_BUTTON (\<lambda>x. x) (st_button dtmtt),
            mt_loc := copy_array 3 cast (st_loc dtmtt),
            mt_rot := copy_array 9 cast (st_rot dtmtt)\<rparr>"

definition copy_finger ::
  "('d \<Rightarrow> 'f) \<Rightarrow> 'd DTrack_Finger_Type_d \<Rightarrow> 'f dtrack_finger_type \<Rightarrow> 'f dtrack_finger_type" where
  "copy_finger cast src dst =
     dst\<lparr>fg_loc := copy_array 3 cast (sg_loc src),
         fg_rot := copy_array 9 cast (sg_rot src),
         fg_radiustip := cast (sg_radiustip src),
         fg_lengthphalanx := copy_array 3 cast (sg_lengthphalanx src),
         fg_anglephalanx := copy_array 2 cast (sg_anglephalanx src)\<rparr>"

definition copy_hand ::
  "('d \<Rightarrow> 'f) \<Rightarrow> 'd DTrack_Hand_Type_d \<Rightarrow> 'f dtrack_hand_type \<Rightarrow> 'f dtrack_hand_type" where
  "copy_hand cast dtht dtht2 =
     dtht2\<lparr>h_id := sh_id dtht,
           h_quality := cast (sh_quality dtht),
           h_lr := sh_lr dtht,
           h_nfinger := sh_nfinger dtht,
           h_loc := copy_array 3 cast (sh_loc dtht),
           h_rot := copy_array 9 cast (sh_rot dtht),
           h_finger := map (\<lambda>k. copy_finger cast (sh_finger dtht ! k) (h_finger dtht2 ! k))
                         [0..<DTRACK_HAND_MAX_FINGER]\<rparr>"

definition copy_marker ::
  "('d \<Rightarrow> 'f) \<Rightarrow> 'd DTrack_Marker_Type_d \<Rightarrow> 'f dtrack_marker_type \<Rightarrow> 'f dtrack_marker_type" where
  "copy_marker cast dtmt dtmt2 =
     dtmt2\<lparr>m_id := sm_id dtmt,
           m_quality := cast (sm_quality dtmt),
           m_loc := copy_array 3 cast (sm_loc dtmt)\<rparr>"

text \<open>Sequencing of steps that may fault: the first fault ends the run.\<close>

definition fault_bind :: "fault + 'a \<Rightarrow> ('a \<Rightarrow> fault + 'b) \<Rightarrow> fault + 'b" where
  "fault_bind m f = (case m of Inl e \<Rightarrow> Inl e | Inr x \<Rightarrow> f x)"

subsection \<open>DTrack\<close>

record ('d, 'f) DTrack =
  sdk :: "'d DTrackSDK"
  remoteCameras :: bool
  remoteTracking :: bool
  remoteSending :: bool
  act_num_body :: int
  act_body :: "'f dtrack_body_type list"
  act_num_flystick :: int
  act_flystick :: "'f dtrack_flystick_type list"
  act_num_meatool :: int
  act_meatool :: "'f dtrack_meatool_type list"
  act_num_marker :: int
  act_marker :: "'f dtrack_marker_type list"
  act_num_hand :: int
  act_hand :: "'f dtrack_hand_type list"

text \<open>
  \<^verbatim>\<open>DTrack::receive\<close> (DTrack.cpp, 127-223). The result is the returned \<^verbatim>\<open>bool\<close> and the object
  after the call.
\<close>

definition DTrack_receive ::
  "'d sdk_receive \<Rightarrow> ('d \<Rightarrow> 'f::zero) \<Rightarrow> ('d, 'f) DTrack \<Rightarrow> fault + (bool \<times> ('d, 'f) DTrack)" where
  "DTrack_receive recv cast d =
     (case recv (sdk d) of (ok, sdk') \<Rightarrow>
        let d0 = d\<lparr>sdk := sdk'\<rparr> in
        if \<not> ok then Inr (False, d0)
        else
          fault_bind (copy_entities (getNumBody sdk') (getBody sdk') (copy_body cast)
                        zero_body (act_body d0)) (\<lambda>bodies.
          fault_bind (copy_entities (getNumFlyStick sdk') (getFlyStick sdk') (copy_flystick cast)
                        zero_flystick (act_flystick d0)) (\<lambda>flysticks.
          fault_bind (copy_entities (getNumMeaTool sdk') (getMeaTool sdk') (copy_meatool cast)
                        zero_meatool (act_meatool d0)) (\<lambda>meatools.
          fault_bind (copy_entities (getNumHand sdk') (getHand sdk') (copy_hand cast)
                        zero_hand (act_hand d0)) (\<lambda>hands.
          fault_bind (copy_entities (getNumMarker sdk') (getMarker sdk') (copy_marker cast)
                        zero_marker (act_marker d0)) (\<lambda>markers.
          Inr (True,
               d0\<lparr>act_num_body := getNumBody sdk', act_body := bodies,
                  act_num_flystick := getNumFlyStick sdk', act_flystick := flysticks,
                  act_num_meatool := getNumMeaTool sdk', act_meatool := meatools,
                  act_num_hand := getNumHand sdk', act_hand := hands,
                  act_num_marker := getNumMarker sdk', act_marker := markers\<rparr>)))))))"

definition DTrack_get_num_body :: "('d, 'f) DTrack \<Rightarrow> int" where
  "DTrack_get_num_body d = act_num_body d"

definition DTrack_get_num_flystick :: "('d, 'f) DTrack \<Rightarrow> int" where
  "DTrack_get_num_flystick d = act_num_flystick d"

definition DTrack_get_num_meatool :: "('d, 'f) DTrack \<Rightarrow> int" where
  "DTrack_get_num_meatool d = act_num_meatool d"

definition DTrack_get_num_hand :: "('d, 'f) DTrack \<Rightarrow> int" where
  "DTrack_get_num_hand d = act_num_hand d"

definition DTrack_get_num_marker :: "('d, 'f) DTrack \<Rightarrow> int" where
  "DTrack_get_num_marker d = act_num_marker d"

text \<open>
  The accessors (DTrack.cpp, 269-410). The parameter is \<open>idx\<close> for the source's \<^verbatim>\<open>id\<close>. The four
  6d accessors compare the index with the count only; \<^verbatim>\<open>get_marker\<close> also compares it with 0 and
  gives its dummy the id 0.
\<close>

definition DTrack_get_body ::
  "('d, 'f::{zero,one,uminus}) DTrack \<Rightarrow> int \<Rightarrow> fault + 'f dtrack_body_type" where
  "DTrack_get_body d idx =
     (if idx < act_num_body d then vector_index (act_body d) idx
      else Inr (zero_body\<lparr>b_id := idx, b_quality := - 1\<rparr>))"

definition DTrack_get_flystick ::
  "('d, 'f::{zero,one,uminus}) DTrack \<Rightarrow> int \<Rightarrow> fault + 'f dtrack_flystick_type" where
  "DTrack_get_flystick d idx =
     (if idx < act_num_flystick d then vector_index (act_flystick d) idx
      else Inr (zero_flystick\<lparr>fs_id := idx, fs_quality := - 1\<rparr>))"

definition DTrack_get_meatool ::
  "('d, 'f::{zero,one,uminus}) DTrack \<Rightarrow> int \<Rightarrow> fault + 'f dtrack_meatool_type" where
  "DTrack_get_meatool d idx =
     (if idx < act_num_meatool d then vector_index (act_meatool d) idx
      else Inr (zero_meatool\<lparr>mt_id := idx, mt_quality := - 1\<rparr>))"

definition DTrack_get_hand ::
  "('d, 'f::{zero,one,uminus}) DTrack \<Rightarrow> int \<Rightarrow> fault + 'f dtrack_hand_type" where
  "DTrack_get_hand d idx =
     (if idx < act_num_hand d then vector_index (act_hand d) idx
      else Inr (zero_hand\<lparr>h_id := idx, h_quality := - 1\<rparr>))"

definition DTrack_get_marker ::
  "('d, 'f::{zero,one,uminus}) DTrack \<Rightarrow> int \<Rightarrow> fault + 'f dtrack_marker_type" where
  "DTrack_get_marker d index =
     (if index \<ge> 0 \<and> index < act_num_marker d then vector_index (act_marker d) index
      else Inr (zero_marker\<lparr>m_id := 0, m_quality := - 1\<rparr>))"

subsection \<open>DTrack2\<close>

text \<open>
  The class of \<^verbatim>\<open>DTrack2.hpp\<close>; its fields carry the suffix 2 here. Its entity structs are the
  ones of DTrack under other names.
\<close>

record ('d, 'f) DTrack2 =
  sdk2 :: "'d DTrackSDK"
  act_num_body2 :: int
  act_body2 :: "'f dtrack_body_type list"
  act_num_flystick2 :: int
  act_flystick2 :: "'f dtrack_flystick_type list"
  act_num_meatool2 :: int
  act_meatool2 :: "'f dtrack_meatool_type list"
  act_num_marker2 :: int
  act_marker2 :: "'f dtrack_marker_type list"
  act_num_hand2 :: int
  act_hand2 :: "'f dtrack_hand_type list"

text \<open>\<^verbatim>\<open>DTrack2::receive\<close> (DTrack2.cpp): the port is checked before the SDK is asked.\<close>

definition DTrack2_receive ::
  "'d sdk_receive \<Rightarrow> ('d \<Rightarrow> 'f::zero) \<Rightarrow> ('d, 'f) DTrack2 \<Rightarrow> fault + (bool \<times> ('d, 'f) DTrack2)" where
  "DTrack2_receive recv cast d =
     (if \<not> isLocalDataPortValid (sdk2 d) then Inr (False, d)
      else case recv (sdk2 d) of (ok, sdk') \<Rightarrow>
        let d0 = d\<lparr>sdk2 := sdk'\<rparr> in
        if \<not> ok then Inr (False, d0)
        else
          fault_bind (copy_entities (getNumBody sdk') (getBody sdk') (copy_body cast)
                        zero_body (act_body2 d0)) (\<lambda>bodies.
          fault_bind (copy_entities (getNumFlyStick sdk') (getFlyStick sdk') (copy_flystick cast)
                        zero_flystick (act_flystick2 d0)) (\<lambda>flysticks.
          fault_bind (copy_entities (getNumMeaTool sdk') (getMeaTool sdk') (copy_meatool cast)
                        zero_meatool (act_meatool2 d0)) (\<lambda>meatools.
          fault_bind (copy_entities (getNumHand sdk') (getHand sdk') (copy_hand cast)
                        zero_hand (act_hand2 d0)) (\<lambda>hands.
          fault_bind (copy_entities (getNumMarker sdk') (getMarker sdk') (copy_marker cast)
                        zero_marker (act_marker2 d0)) (\<lambda>markers.
          Inr (True,
               d0\<lparr>act_num_body2 := getNumBody sdk', act_body2 := bodies,
                  act_num_flystick2 := getNumFlyStick sdk', act_flystick2 := flysticks,
                  act_num_meatool2 := getNumMeaTool sdk', act_meatool2 := meatools,
                  act_num_hand2 := getNumHand sdk', act_hand2 := hands,
                  act_num_marker2 := getNumMarker sdk', act_marker2 := markers\<rparr>)))))))"

definition DTrack2_get_body ::
  "('d, 'f::{zero,one,uminus}) DTrack2 \<Rightarrow> int \<Rightarrow> fault + 'f dtrack_body_type" where
  "DTrack2_get_body d idx =
     (if idx < act_num_body2 d then vector_index (act_body2 d) idx
      else Inr (zero_body\<lparr>b_id := idx, b_quality := - 1\<rparr>))"

definition DTrack2_get_flystick ::
  "('d, 'f::{zero,one,uminus}) DTrack2 \<Rightarrow> int \<Rightarrow> fault + 'f dtrack_flystick_type" where
  "DTrack2_get_flystick d idx =
     (if idx < act_num_flystick2 d then vector_index (act_flystick2 d) idx
      else Inr (zero_flystick\<lparr>fs_id := idx, fs_quality := - 1\<rparr>))"

definition DTrack2_get_meatool ::
  "('d, 'f::{zero,one,uminus}) DTrack2 \<Rightarrow> int \<Rightarrow> fault + 'f dtrack_meatool_type" where
  "DTrack2_get_meatool d idx =
     (if idx < act_num_meatool2 d then vector_index (act_meatool2 d) idx
      else Inr (zero_meatool\<lparr>mt_id := idx, mt_quality := - 1\<rparr>))"

definition DTrack2_get_hand ::
  "('d, 'f::{zero,one,uminus}) DTrack2 \<Rightarrow> int \<Rightarrow> fault + 'f dtrack_hand_type" where
  "DTrack2_get_hand d idx =
     (if idx < act_num_hand2 d then vector_index (act_hand2 d) idx
      else Inr (zero_hand\<lparr>h_id := idx, h_quality := - 1\<rparr>))"

definition DTrack2_get_marker ::
  "('d, 'f::{zero,one,uminus}) DTrack2 \<Rightarrow> int \<Rightarrow> fault + 'f dtrack_marker_type" where
  "DTrack2_get_marker d index =
     (if index \<ge> 0 \<and> index < act_num_marker2 d then vector_index (act_marker2 d) index
      else Inr (zero_marker\<lparr>m_id := 0, m_quality := - 1\<rparr>))"

text \<open>
  The command functions of DTrack2. \<^verbatim>\<open>set_parameter\<close> is overloaded: the function of three
  strings keeps the name, the function of the whole parameter string is
  \<open>DTrack2_set_parameter_total\<close>.
\<close>

definition DTrack2_send_command ::
  "'d sdk_sendDTrack2Command \<Rightarrow> string \<Rightarrow> ('d, 'f) DTrack2 \<Rightarrow> bool \<times> ('d, 'f) DTrack2" where
  "DTrack2_send_command sendDTrack2Command command d =
     (case sendDTrack2Command (''dtrack2 '' @ command) (sdk2 d) of
        (r, sdk') \<Rightarrow> (1 = r, d\<lparr>sdk2 := sdk'\<rparr>))"

definition DTrack2_set_parameter_total ::
  "'d sdk_sendDTrack2Command \<Rightarrow> string \<Rightarrow> ('d, 'f) DTrack2 \<Rightarrow> bool \<times> ('d, 'f) DTrack2" where
  "DTrack2_set_parameter_total sendDTrack2Command parameter d =
     DTrack2_send_command sendDTrack2Command (''set '' @ parameter) d"

definition DTrack2_set_parameter ::
  "'d sdk_sendDTrack2Command \<Rightarrow> string \<Rightarrow> string \<Rightarrow> string \<Rightarrow> ('d, 'f) DTrack2
     \<Rightarrow> bool \<times> ('d, 'f) DTrack2" where
  "DTrack2_set_parameter sendDTrack2Command category name val d =
     DTrack2_set_parameter_total sendDTrack2Command (((category @ '' '') @ name) @ '' '' @ val) d"

text \<open>
  \<^verbatim>\<open>get_lasterror\<close> is overloaded on its output parameter, which is passed in and returned with
  the result.
\<close>

definition DTrack2_get_lasterror_code :: "('d, 'f) DTrack2 \<Rightarrow> int \<Rightarrow> bool \<times> int" where
  "DTrack2_get_lasterror_code d errorcode =
     (let errorcode' = getLastDTrackError (sdk2 d) in (0 \<noteq> errorcode', errorcode'))"

definition DTrack2_get_lasterror_string :: "('d, 'f) DTrack2 \<Rightarrow> string \<Rightarrow> bool \<times> string" where
  "DTrack2_get_lasterror_string d errorstring =
     (if 0 = getLastDTrackError (sdk2 d) then (False, errorstring)
      else (True, getLastDTrackErrorDescription (sdk2 d)))"

subsection \<open>DTracklib\<close>

type_synonym ulong = "64 word"

record 'f dtracklib_body_type =
  lb_id :: ulong
  lb_quality :: 'f
  lb_loc :: "'f list"
  lb_ang :: "'f list"
  lb_rot :: "'f list"

definition DTRACKLIB_HAND_MAX_FINGER :: nat where
  "DTRACKLIB_HAND_MAX_FINGER = 5"

definition DTRACKLIB_FLYSTICK_MAX_BUTTON :: int where
  "DTRACKLIB_FLYSTICK_MAX_BUTTON = 16"

record 'f dtracklib_flystick_type =
  lf_id :: ulong
  lf_quality :: 'f
  lf_bt :: ulong
  lf_loc :: "'f list"
  lf_ang :: "'f list"
  lf_rot :: "'f list"

record 'f dtracklib_meatool_type =
  lt_id :: ulong
  lt_quality :: 'f
  lt_bt :: ulong
  lt_loc :: "'f list"
  lt_rot :: "'f list"

type_synonym 'f dtracklib_glove_type = "'f dtrack_hand_type"
type_synonym 'f dtracklib_marker_type = "'f dtrack_marker_type"

definition zero_body_lib :: "('f::zero) dtracklib_body_type" where
  "zero_body_lib =
     \<lparr>lb_id = 0, lb_quality = 0, lb_loc = replicate 3 0, lb_ang = replicate 3 0,
      lb_rot = replicate 9 0\<rparr>"

definition zero_flystick_lib :: "('f::zero) dtracklib_flystick_type" where
  "zero_flystick_lib =
     \<lparr>lf_id = 0, lf_quality = 0, lf_bt = 0, lf_loc = replicate 3 0, lf_ang = replicate 3 0,
      lf_rot = replicate 9 0\<rparr>"

definition zero_meatool_lib :: "('f::zero) dtracklib_meatool_type" where
  "zero_meatool_lib =
     \<lparr>lt_id = 0, lt_quality = 0, lt_bt = 0, lt_loc = replicate 3 0, lt_rot = replicate 9 0\<rparr>"

record ('d, 'f) DTracklib =
  sdk_lib :: "'d DTrackSDK"
  act_nbodycal :: int
  act_nbody :: int
  act_body_lib :: "'f dtracklib_body_type list"
  act_nflystick :: int
  act_flystick_lib :: "'f dtracklib_flystick_type list"
  act_nmeatool :: int
  act_meatool_lib :: "'f dtracklib_meatool_type list"
  act_nmarker :: int
  act_marker_lib :: "'f dtracklib_marker_type list"
  act_nglove :: int
  act_glove :: "'f dtracklib_glove_type list"

text \<open>
  The constructor (DTracklib.cpp, 58-70); \<open>new_sdk\<close> is the SDK object that
  \<^verbatim>\<open>new DTrackSDK(...)\<close> yields. The vectors start empty.
\<close>

definition DTracklib_ctor :: "'d DTrackSDK \<Rightarrow> ('d, 'f) DTracklib" where
  "DTracklib_ctor new_sdk =
     \<lparr>sdk_lib = new_sdk, act_nbodycal = - 1,
      act_nbody = 0, act_body_lib = [],
      act_nflystick = 0, act_flystick_lib = [],
      act_nmeatool = 0, act_meatool_lib = [],
      act_nmarker = 0, act_marker_lib = [],
      act_nglove = 0, act_glove = []\<rparr>"

text \<open>
  The button loop of the flystick and measurement tool blocks:
  \<^verbatim>\<open>for (j = 0; j < min(num_button, DTRACKLIB_FLYSTICK_MAX_BUTTON); j++)
     if (button[j] == 1) bt |= (button[j] << j);\<close>
\<close>

definition pack_buttons :: "int \<Rightarrow> int list \<Rightarrow> ulong" where
  "pack_buttons num_button button =
     fold (\<lambda>j bt. if button ! j = 1 then bt OR word_of_int (push_bit j (button ! j)) else bt)
       [0..<nat (min num_button DTRACKLIB_FLYSTICK_MAX_BUTTON)] 0"

definition copy_body_lib ::
  "('d \<Rightarrow> 'f::zero) \<Rightarrow> 'd DTrack_Body_Type_d \<Rightarrow> 'f dtracklib_body_type \<Rightarrow> 'f dtracklib_body_type" where
  "copy_body_lib cast dtbt dtbt2 =
     dtbt2\<lparr>lb_id := word_of_int (sb_id dtbt),
           lb_quality := cast (sb_quality dtbt),
           lb_loc := copy_array 3 cast (sb_loc dtbt),
           lb_ang := replicate 3 0,
           lb_rot := copy_array 9 cast (sb_rot dtbt)\<rparr>"

definition copy_flystick_lib ::
  "('d \<Rightarrow> 'f::zero) \<Rightarrow> 'd DTrack_FlyStick_Type_d \<Rightarrow> 'f dtracklib_flystick_type
     \<Rightarrow> 'f dtracklib_flystick_type" where
  "copy_flystick_lib cast dtfst dtfst2 =
     dtfst2\<lparr>lf_id := word_of_int (sf_id dtfst),
            lf_quality := cast (sf_quality dtfst),
            lf_bt := pack_buttons (sf_num_button dtfst) (sf_button dtfst),
            lf_loc := copy_array 3 cast (sf_loc dtfst),
            lf_ang := replicate 3 0,
            lf_rot := copy_array 9 cast (sf_rot dtfst)\<rparr>"

definition copy_meatool_lib ::
  "('d \<Rightarrow> 'f) \<Rightarrow> 'd DTrack_MeaTool_Type_d \<Rightarrow> 'f dtracklib_meatool_type
     \<Rightarrow> 'f dtracklib_meatool_type" where
  "copy_meatool_lib cast dtmtt dtmtt2 =
     dtmtt2\<lparr>lt_id := word_of_int (st_id dtmtt),
            lt_quality := cast (st_quality dtmtt),
            lt_bt := pack_buttons (st_num_button dtmtt) (st_button dtmtt),
            lt_loc := copy_array 3 cast (st_loc dtmtt),
            lt_rot := copy_array 9 cast (st_rot dtmtt)\<rparr>"

text \<open>
  \<^verbatim>\<open>DTracklib::receive\<close> (DTracklib.cpp, 131-234). The hand block is the one of DTrack, with
  \<^verbatim>\<open>DTRACKLIB_HAND_MAX_FINGER\<close>, which is 5 as well.
\<close>

definition DTracklib_receive ::
  "'d sdk_receive \<Rightarrow> ('d \<Rightarrow> 'f::zero) \<Rightarrow> ('d, 'f) DTracklib
     \<Rightarrow> fault + (bool \<times> ('d, 'f) DTracklib)" where
  "DTracklib_receive recv cast d =
     (case recv (sdk_lib d) of (ok, sdk') \<Rightarrow>
        let d0 = d\<lparr>sdk_lib := sdk'\<rparr> in
        if \<not> ok then Inr (False, d0)
        else
          fault_bind (copy_entities (getNumBody sdk') (getBody sdk') (copy_body_lib cast)
                        zero_body_lib (act_body_lib d0)) (\<lambda>bodies.
          fault_bind (copy_entities (getNumFlyStick sdk') (getFlyStick sdk')
                        (copy_flystick_lib cast) zero_flystick_lib (act_flystick_lib d0))
            (\<lambda>flysticks.
          fault_bind (copy_entities (getNumMeaTool sdk') (getMeaTool sdk')
                        (copy_meatool_lib cast) zero_meatool_lib (act_meatool_lib d0))
            (\<lambda>meatools.
          fault_bind (copy_entities (getNumHand sdk') (getHand sdk') (copy_hand cast)
                        zero_hand (act_glove d0)) (\<lambda>gloves.
          fault_bind (copy_entities (getNumMarker sdk') (getMarker sdk') (copy_marker cast)
                        zero_marker (act_marker_lib d0)) (\<lambda>markers.
          Inr (True,
               d0\<lparr>act_nbody := getNumBody sdk', act_body_lib := bodies,
                  act_nflystick := getNumFlyStick sdk', act_flystick_lib := flysticks,
                  act_nmeatool := getNumMeaTool sdk', act_meatool_lib := meatools,
                  act_nglove := getNumHand sdk', act_glove := gloves,
                  act_nmarker := getNumMarker sdk', act_marker_lib := markers\<rparr>)))))))"

definition DTracklib_get_nbodycal :: "('d, 'f) DTracklib \<Rightarrow> int" where
  "DTracklib_get_nbodycal d = act_nbodycal d"

definition DTracklib_get_nbody :: "('d, 'f) DTracklib \<Rightarrow> int" where
  "DTracklib_get_nbody d = act_nbody d"

text \<open>
  The accessors of DTracklib (DTracklib.cpp, 291-423) compare the index with 0 and with the
  count; their dummy is the zeroed record.
\<close>

definition DTracklib_get_body ::
  "('d, 'f::zero) DTracklib \<Rightarrow> int \<Rightarrow> fault + 'f dtracklib_body_type" where
  "DTracklib_get_body d idx =
     (if idx < 0 \<or> idx \<ge> act_nbody d then Inr zero_body_lib
      else vector_index (act_body_lib d) idx)"

definition DTracklib_get_flystick ::
  "('d, 'f::zero) DTracklib \<Rightarrow> int \<Rightarrow> fault + 'f dtracklib_flystick_type" where
  "DTracklib_get_flystick d idx =
     (if idx < 0 \<or> idx \<ge> act_nflystick d then Inr zero_flystick_lib
      else vector_index (act_flystick_lib d) idx)"

definition DTracklib_get_meatool ::
  "('d, 'f::zero) DTracklib \<Rightarrow> int \<Rightarrow> fault + 'f dtracklib_meatool_type" where
  "DTracklib_get_meatool d idx =
     (if idx < 0 \<or> idx \<ge> act_nmeatool d then Inr zero_meatool_lib
      else vector_index (act_meatool_lib d) idx)"

definition DTracklib_get_glove ::
  "('d, 'f::zero) DTracklib \<Rightarrow> int \<Rightarrow> fault + 'f dtracklib_glove_type" where
  "DTracklib_get_glove d idx =
     (if idx < 0 \<or> idx \<ge> act_nglove d then Inr zero_hand
      else vector_index (act_glove d) idx)"

definition DTracklib_get_marker ::
  "('d, 'f::zero) DTracklib \<Rightarrow> int \<Rightarrow> fault + 'f dtracklib_marker_type" where
  "DTracklib_get_marker d index =
     (if index < 0 \<or> index \<ge> act_nmarker d then Inr zero_marker
      else vector_index (act_marker_lib d) index)"

text \<open>
  \<^verbatim>\<open>c << val\<close> for an \<^verbatim>\<open>int\<close>: the decimal digits, most significant first, after a minus
  sign when the value is negative. The digits are produced from the least significant one and
  pushed in front of the ones already there.
\<close>

definition digit_char :: "nat \<Rightarrow> char" where
  "digit_char n = ''0123456789'' ! n"

function decimal_digits :: "nat \<Rightarrow> string \<Rightarrow> string" where
  "decimal_digits n acc =
     (if n < 10 then digit_char n # acc
      else decimal_digits (n div 10) (digit_char (n mod 10) # acc))"
  by pat_completeness auto
termination
  by (relation "measure fst") auto

declare decimal_digits.simps [simp del]

definition ostream_int :: "int \<Rightarrow> string" where
  "ostream_int val =
     (if 0 \<le> val then decimal_digits (nat val) []
      else CHR ''-'' # decimal_digits (nat (- val)) [])"

definition DTRACKLIB_CMD_CAMERAS_OFF :: "16 word" where
  "DTRACKLIB_CMD_CAMERAS_OFF = 0x1000"

definition DTRACKLIB_CMD_CAMERAS_ON :: "16 word" where
  "DTRACKLIB_CMD_CAMERAS_ON = 0x1001"

definition DTRACKLIB_CMD_CAMERAS_AND_CALC_ON :: "16 word" where
  "DTRACKLIB_CMD_CAMERAS_AND_CALC_ON = 0x1003"

definition DTRACKLIB_CMD_SEND_DATA :: "16 word" where
  "DTRACKLIB_CMD_SEND_DATA = 0x3100"

definition DTRACKLIB_CMD_STOP_DATA :: "16 word" where
  "DTRACKLIB_CMD_STOP_DATA = 0x3200"

definition DTRACKLIB_CMD_SEND_N_DATA :: "16 word" where
  "DTRACKLIB_CMD_SEND_N_DATA = 0x3300"

text \<open>
  \<^verbatim>\<open>DTracklib::send\<close> (DTracklib.cpp, 434-464). \<open>DTracklib_send_switch\<close> is the \<^verbatim>\<open>switch\<close>: the text
  appended to the stream, or \<open>None\<close> for the \<^verbatim>\<open>default\<close> label, which returns 0.
\<close>

definition DTracklib_send_switch :: "16 word \<Rightarrow> int \<Rightarrow> string option" where
  "DTracklib_send_switch cmd val =
     (if cmd = DTRACKLIB_CMD_CAMERAS_OFF then Some ''10 0''
      else if cmd = DTRACKLIB_CMD_CAMERAS_ON then Some ''10 1''
      else if cmd = DTRACKLIB_CMD_CAMERAS_AND_CALC_ON then Some ''10 3''
      else if cmd = DTRACKLIB_CMD_SEND_DATA then Some ''31''
      else if cmd = DTRACKLIB_CMD_STOP_DATA then Some ''32''
      else if cmd = DTRACKLIB_CMD_SEND_N_DATA then Some (''33 '' @ ostream_int val)
      else None)"

definition DTracklib_send ::
  "'d sdk_sendCommand \<Rightarrow> 16 word \<Rightarrow> int \<Rightarrow> ('d, 'f) DTracklib \<Rightarrow> bool \<times> ('d, 'f) DTracklib" where
  "DTracklib_send sendCommand cmd val d =
     (if \<not> isLocalDataPortValid (sdk_lib d) then (False, d)
      else case DTracklib_send_switch cmd val of
        None \<Rightarrow> (False, d)
      | Some c \<Rightarrow>
          (case sendCommand (''dtrack '' @ c) (sdk_lib d) of
             (r, sdk') \<Rightarrow> (True, d\<lparr>sdk_lib := sdk'\<rparr>)))"

text \<open>
  The states a DTracklib object can be in: the constructor makes the first one, and the member
  functions that change the object are \<^verbatim>\<open>receive\<close> and \<^verbatim>\<open>send\<close> (the latter through the SDK object
  only), whatever the network does.
\<close>

inductive DTracklib_reachable :: "('d, 'f::zero) DTracklib \<Rightarrow> bool" where
  reach_ctor: "DTracklib_reachable (DTracklib_ctor new_sdk)"
| reach_receive:
    "DTracklib_reachable d \<Longrightarrow> DTracklib_receive recv cast d = Inr (b, d') \<Longrightarrow>
     DTracklib_reachable d'"
| reach_send:
    "DTracklib_reachable d \<Longrightarrow> DTracklib_send sendCommand cmd val d = (b, d') \<Longrightarrow>
     DTracklib_reachable d'"

subsection \<open>Frames the SDK delivers\<close>

text \<open>
  Modelled from the spec: what the frame parser of the SDK (not among the sources) lets through.
  The counts of a flystick are "bounded by protocol maxima (16 buttons, 8 joystick axes)", the
  "finger count" of a hand is at most 5, and a datagram with a larger count is rejected as a
  parse error, so that \<^verbatim>\<open>sdk->receive()\<close> fails on it.
\<close>

definition sdk_counts_bounded :: "'d DTrackSDK \<Rightarrow> bool" where
  "sdk_counts_bounded s =
     (list_all (\<lambda>f. sf_num_button f \<le> 16 \<and> sf_num_joystick f \<le> 8) (sdk_flystick s) \<and>
      list_all (\<lambda>h. sh_nfinger h \<le> 5) (sdk_hand s))"

subsection \<open>Example objects\<close>

text \<open>
  The frame of the datagram
  \<^verbatim>\<open>fr 10 ts 1.500000 6d 1 [0 0.99][100 200 300][1 0 0 0 1 0 0 0 1]\<close>, extended by one flystick
  with 2 buttons and 2 joystick values, one measurement tool, one hand with 3 fingers and one
  single marker; \<^verbatim>\<open>double\<close> and \<^verbatim>\<open>float\<close> are both read as \<^typ>\<open>real\<close> here, and the cast as the
  identity.
\<close>

definition ex_body :: "real DTrack_Body_Type_d" where
  "ex_body =
     \<lparr>sb_id = 0, sb_quality = 99 / 100, sb_loc = [100, 200, 300],
      sb_rot = [1, 0, 0, 0, 1, 0, 0, 0, 1]\<rparr>"

definition ex_flystick :: "real DTrack_FlyStick_Type_d" where
  "ex_flystick =
     \<lparr>sf_id = 0, sf_quality = 1, sf_num_button = 2,
      sf_button = [1, 0, 0, 0, 0, 0, 0, 0, 0, 0, 0, 0, 0, 0, 0, 0],
      sf_num_joystick = 2, sf_joystick = [1 / 2, 0, 0, 0, 0, 0, 0, 0],
      sf_loc = [10, 20, 30], sf_rot = [1, 0, 0, 0, 1, 0, 0, 0, 1]\<rparr>"

definition ex_meatool :: "real DTrack_MeaTool_Type_d" where
  "ex_meatool =
     \<lparr>st_id = 0, st_quality = 1, st_num_button = 1, st_button = [1],
      st_loc = [4, 5, 6], st_rot = [1, 0, 0, 0, 1, 0, 0, 0, 1]\<rparr>"

definition ex_finger :: "real DTrack_Finger_Type_d" where
  "ex_finger =
     \<lparr>sg_loc = [7, 8, 9], sg_rot = [1, 0, 0, 0, 1, 0, 0, 0, 1], sg_radiustip = 8,
      sg_lengthphalanx = [25, 30, 45], sg_anglephalanx = [10, 20]\<rparr>"

definition ex_hand :: "real DTrack_Hand_Type_d" where
  "ex_hand =
     \<lparr>sh_id = 0, sh_quality = 1, sh_lr = 1, sh_nfinger = 3,
      sh_loc = [40, 50, 60], sh_rot = [1, 0, 0, 0, 1, 0, 0, 0, 1],
      sh_finger = [ex_finger, ex_finger, ex_finger, ex_finger, ex_finger]\<rparr>"

definition ex_marker :: "real DTrack_Marker_Type_d" where
  "ex_marker = \<lparr>sm_id = 1, sm_quality = 1, sm_loc = [1, 2, 3]\<rparr>"

definition ex_sdk :: "real DTrackSDK" where
  "ex_sdk =
     \<lparr>localDataPortValid = True, sdk_body = [ex_body], sdk_flystick = [ex_flystick],
      sdk_meatool = [ex_meatool], sdk_hand = [ex_hand], sdk_marker = [ex_marker],
      lastDTrackError = 0, lastDTrackErrorDescription = []\<rparr>"

text \<open>The SDK object before any frame has arrived, and with an invalid data port.\<close>

definition ex_sdk_empty :: "real DTrackSDK" where
  "ex_sdk_empty =
     \<lparr>localDataPortValid = True, sdk_body = [], sdk_flystick = [],
      sdk_meatool = [], sdk_hand = [], sdk_marker = [],
      lastDTrackError = 0, lastDTrackErrorDescription = []\<rparr>"

definition ex_sdk_invalid :: "real DTrackSDK" where
  "ex_sdk_invalid = ex_sdk_empty\<lparr>localDataPortValid := False\<rparr>"

text \<open>The SDK object after the device has refused a command.\<close>

definition ex_sdk_error :: "real DTrackSDK" where
  "ex_sdk_error =
     ex_sdk_empty\<lparr>lastDTrackError := - 4, lastDTrackErrorDescription := ''invalid parameter''\<rparr>"

text \<open>A receive that delivers the example frame, and one that fails on a malformed datagram
  after the SDK has dropped the bodies of its own frame.\<close>

definition ex_recv_frame :: "real sdk_receive" where
  "ex_recv_frame s = (True, ex_sdk)"

definition ex_recv_parse_error :: "real sdk_receive" where
  "ex_recv_parse_error s = (False, s\<lparr>sdk_body := []\<rparr>)"

text \<open>A command channel that fails to send, and a device that answers every command with ok.\<close>

definition ex_sendCommand_fails :: "real sdk_sendCommand" where
  "ex_sendCommand_fails str s = (False, s)"

definition ex_exchange_ok :: "real sdk_sendDTrack2Command" where
  "ex_exchange_ok str s = (1, s)"

text \<open>Facade objects that hold the example frame, as \<^verbatim>\<open>receive()\<close> stores it.\<close>

definition ex_act_body :: "real dtrack_body_type" where
  "ex_act_body =
     \<lparr>b_id = 0, b_quality = 99 / 100, b_loc = [100, 200, 300],
      b_rot = [1, 0, 0, 0, 1, 0, 0, 0, 1]\<rparr>"

definition ex_act_flystick :: "real dtrack_flystick_type" where
  "ex_act_flystick =
     \<lparr>fs_id = 0, fs_quality = 1, fs_num_button = 2,
      fs_button = [1, 0, 0, 0, 0, 0, 0, 0, 0, 0, 0, 0, 0, 0, 0, 0],
      fs_num_joystick = 2, fs_joystick = [1 / 2, 0, 0, 0, 0, 0, 0, 0],
      fs_loc = [10, 20, 30], fs_rot = [1, 0, 0, 0, 1, 0, 0, 0, 1]\<rparr>"

definition ex_act_meatool :: "real dtrack_meatool_type" where
  "ex_act_meatool =
     \<lparr>mt_id = 0, mt_quality = 1, mt_num_button = 1, mt_button = [1],
      mt_loc = [4, 5, 6], mt_rot = [1, 0, 0, 0, 1, 0, 0, 0, 1]\<rparr>"

definition ex_act_finger :: "real dtrack_finger_type" where
  "ex_act_finger =
     \<lparr>fg_loc = [7, 8, 9], fg_rot = [1, 0, 0, 0, 1, 0, 0, 0, 1], fg_radiustip = 8,
      fg_lengthphalanx = [25, 30, 45], fg_anglephalanx = [10, 20]\<rparr>"

definition ex_act_hand :: "real dtrack_hand_type" where
  "ex_act_hand =
     \<lparr>h_id = 0, h_quality = 1, h_lr = 1, h_nfinger = 3,
      h_loc = [40, 50, 60], h_rot = [1, 0, 0, 0, 1, 0, 0, 0, 1],
      h_finger = [ex_act_finger, ex_act_finger, ex_act_finger, ex_act_finger, ex_act_finger]\<rparr>"

definition ex_act_marker :: "real dtrack_marker_type" where
  "ex_act_marker = \<lparr>m_id = 1, m_quality = 1, m_loc = [1, 2, 3]\<rparr>"

definition ex_DTrack :: "(real, real) DTrack" where
  "ex_DTrack =
     \<lparr>sdk = ex_sdk, remoteCameras = False, remoteTracking = True, remoteSending = True,
      act_num_body = 1, act_body = [ex_act_body],
      act_num_flystick = 1, act_flystick = [ex_act_flystick],
      act_num_meatool = 1, act_meatool = [ex_act_meatool],
      act_num_marker = 1, act_marker = [ex_act_marker],
      act_num_hand = 1, act_hand = [ex_act_hand]\<rparr>"

definition ex_DTrack2 :: "(real, real) DTrack2" where
  "ex_DTrack2 =
     \<lparr>sdk2 = ex_sdk,
      act_num_body2 = 1, act_body2 = [ex_act_body],
      act_num_flystick2 = 1, act_flystick2 = [ex_act_flystick],
      act_num_meatool2 = 1, act_meatool2 = [ex_act_meatool],
      act_num_marker2 = 1, act_marker2 = [ex_act_marker],
      act_num_hand2 = 1, act_hand2 = [ex_act_hand]\<rparr>"

definition ex_DTracklib :: "(real, real) DTracklib" where
  "ex_DTracklib =
     \<lparr>sdk_lib = ex_sdk, act_nbodycal = - 1,
      act_nbody = 1,
      act_body_lib = [\<lparr>lb_id = 0, lb_quality = 99 / 100, lb_loc = [100, 200, 300],
                       lb_ang = [0, 0, 0], lb_rot = [1, 0, 0, 0, 1, 0, 0, 0, 1]\<rparr>],
      act_nflystick = 1,
      act_flystick_lib = [\<lparr>lf_id = 0, lf_quality = 1, lf_bt = 1, lf_loc = [10, 20, 30],
                           lf_ang = [0, 0, 0], lf_rot = [1, 0, 0, 0, 1, 0, 0, 0, 1]\<rparr>],
      act_nmeatool = 1,
      act_meatool_lib = [\<lparr>lt_id = 0, lt_quality = 1, lt_bt = 1, lt_loc = [4, 5, 6],
                          lt_rot = [1, 0, 0, 0, 1, 0, 0, 0, 1]\<rparr>],
      act_nmarker = 1, act_marker_lib = [ex_act_marker],
      act_nglove = 1, act_glove = [ex_act_hand]\<rparr>"

section \<open>Properties\<close>

subsection \<open>Auxiliary facts\<close>

lemmas sdk_defs =
  getNumBody_def getBody_def getNumFlyStick_def getFlyStick_def getNumMeaTool_def
  getMeaTool_def getNumHand_def getHand_def getNumMarker_def getMarker_def
  isLocalDataPortValid_def getLastDTrackError_def getLastDTrackErrorDescription_def

lemmas max_defs =
  DTRACK_FLYSTICK_MAX_BUTTON_def DTRACK_FLYSTICK_MAX_JOYSTICK_def
  DTRACK_MEATOOL_MAX_BUTTON_def DTRACK_HAND_MAX_FINGER_def

lemmas zero_defs =
  zero_body_def zero_flystick_def zero_meatool_def zero_finger_def zero_hand_def
  zero_marker_def zero_body_lib_def zero_flystick_lib_def zero_meatool_lib_def

lemmas copy_defs =
  copy_body_def copy_flystick_def copy_meatool_def copy_finger_def copy_hand_def
  copy_marker_def copy_body_lib_def copy_flystick_lib_def copy_meatool_lib_def

lemmas cmd_defs =
  DTRACKLIB_CMD_CAMERAS_OFF_def DTRACKLIB_CMD_CAMERAS_ON_def
  DTRACKLIB_CMD_CAMERAS_AND_CALC_ON_def DTRACKLIB_CMD_SEND_DATA_def
  DTRACKLIB_CMD_STOP_DATA_def DTRACKLIB_CMD_SEND_N_DATA_def

lemmas ex_defs =
  ex_body_def ex_flystick_def ex_meatool_def ex_finger_def ex_hand_def ex_marker_def
  ex_sdk_def ex_sdk_empty_def ex_sdk_invalid_def ex_sdk_error_def
  ex_recv_frame_def ex_recv_parse_error_def ex_sendCommand_fails_def ex_exchange_ok_def
  ex_act_body_def ex_act_flystick_def ex_act_meatool_def ex_act_finger_def ex_act_hand_def
  ex_act_marker_def ex_DTrack_def ex_DTrack2_def ex_DTracklib_def

lemmas eval_defs =
  copy_entities_def vector_resize_def fault_bind_def copy_array_def pack_buttons_def
  DTRACKLIB_FLYSTICK_MAX_BUTTON_def sdk_get_def upt_rec numeral_nat

text \<open>The copy loop runs to its end when every index is inside the vector and the SDK has an
  entity for it; it is then a fold of updates.\<close>

lemma copy_loop_fold:
  "\<forall>i\<in>set is. i < length v \<and> get (int i) \<noteq> None \<Longrightarrow>
   copy_loop get upd is v = Inr (fold (\<lambda>i w. w[i := upd (the (get (int i))) (w ! i)]) is v)"
proof (induction "is" arbitrary: v)
  case Nil
  then show ?case by simp
next
  case (Cons i "is")
  then show ?case by (auto split: option.splits)
qed

lemma fold_update_upt:
  "n \<le> length v \<Longrightarrow> fold (\<lambda>i w. w[i := f i]) [0..<n] v = map f [0..<n] @ drop n v"
proof (induction n)
  case 0
  then show ?case by simp
next
  case (Suc n)
  then have "fold (\<lambda>i w. w[i := f i]) [0..<Suc n] v = (map f [0..<n] @ drop n v)[n := f n]"
    by simp
  also have "\<dots> = map f [0..<n] @ (drop n v)[0 := f n]"
    by (simp add: list_update_append)
  also have "(drop n v)[0 := f n] = f n # drop (Suc n) v"
    using Suc.prems by (simp add: Cons_nth_drop_Suc [symmetric])
  finally show ?case by simp
qed

lemma sdk_get_nth: "i < length xs \<Longrightarrow> sdk_get xs (int i) = Some (xs ! i)"
  by (simp add: sdk_get_def)

text \<open>A block of \<^verbatim>\<open>receive()\<close> whose loop body overwrites every field of the destination
  stores the converted sequence of the SDK, whatever the vector held before.\<close>

lemma copy_entities_map:
  assumes indep: "\<And>s t t'. upd s t = upd s t'"
  shows "copy_entities (int (length srcs)) (sdk_get srcs) upd z v =
         Inr (map (\<lambda>s. upd s z) srcs)"
proof -
  let ?n = "length srcs"
  let ?v = "take ?n v @ replicate (?n - length v) z"
  have "copy_loop (sdk_get srcs) upd [0..<?n] ?v =
        Inr (fold (\<lambda>i w. w[i := upd (the (sdk_get srcs (int i))) (w ! i)]) [0..<?n] ?v)"
    by (rule copy_loop_fold) (auto simp: sdk_get_nth)
  also have "fold (\<lambda>i w. w[i := upd (the (sdk_get srcs (int i))) (w ! i)]) [0..<?n] ?v =
             fold (\<lambda>i w. w[i := upd (the (sdk_get srcs (int i))) z]) [0..<?n] ?v"
    using indep by metis
  also have "\<dots> = map (\<lambda>i. upd (the (sdk_get srcs (int i))) z) [0..<?n] @ drop ?n ?v"
    by (rule fold_update_upt) simp
  also have "\<dots> = map (\<lambda>i. upd (srcs ! i) z) [0..<?n]"
    by (simp add: sdk_get_nth)
  also have "\<dots> = map (\<lambda>s. upd s z) srcs"
    by (rule nth_equalityI) simp_all
  finally show ?thesis
    by (simp add: copy_entities_def vector_resize_def)
qed

lemma copy_body_indep: "copy_body cast s t = copy_body cast s t'"
  by (cases t, cases t') (simp add: copy_body_def)

lemma copy_flystick_indep: "copy_flystick cast s t = copy_flystick cast s t'"
  by (cases t, cases t') (simp add: copy_flystick_def)

lemma copy_meatool_indep: "copy_meatool cast s t = copy_meatool cast s t'"
  by (cases t, cases t') (simp add: copy_meatool_def)

lemma copy_finger_indep: "copy_finger cast s t = copy_finger cast s t'"
  by (cases t, cases t') (simp add: copy_finger_def)

lemma copy_hand_indep: "copy_hand cast s t = copy_hand cast s t'"
proof -
  have "copy_finger cast (sh_finger s ! k) (h_finger t ! k) =
        copy_finger cast (sh_finger s ! k) (h_finger t' ! k)" for k
    by (rule copy_finger_indep)
  then show ?thesis
    by (cases t, cases t') (simp add: copy_hand_def)
qed

lemma copy_marker_indep: "copy_marker cast s t = copy_marker cast s t'"
  by (cases t, cases t') (simp add: copy_marker_def)

lemma copy_body_lib_indep: "copy_body_lib cast s t = copy_body_lib cast s t'"
  by (cases t, cases t') (simp add: copy_body_lib_def)

lemma copy_flystick_lib_indep: "copy_flystick_lib cast s t = copy_flystick_lib cast s t'"
  by (cases t, cases t') (simp add: copy_flystick_lib_def)

lemma copy_meatool_lib_indep: "copy_meatool_lib cast s t = copy_meatool_lib cast s t'"
  by (cases t, cases t') (simp add: copy_meatool_lib_def)

lemma copy_array_length: "length (copy_array n cast src) = n"
  by (simp add: copy_array_def)

lemma copy_array_nth: "j < n \<Longrightarrow> copy_array n cast src ! j = cast (src ! j)"
  by (simp add: copy_array_def)

text \<open>What the three \<^verbatim>\<open>receive()\<close> functions return and store when the SDK has received a
  frame, and when it has not.\<close>

lemma copy_bodies_map:
  "copy_entities (getNumBody s') (getBody s') (copy_body cast) z v =
   Inr (map (\<lambda>s. copy_body cast s z) (sdk_body s'))"
  unfolding getNumBody_def getBody_def by (rule copy_entities_map) (rule copy_body_indep)

lemma copy_flysticks_map:
  "copy_entities (getNumFlyStick s') (getFlyStick s') (copy_flystick cast) z v =
   Inr (map (\<lambda>s. copy_flystick cast s z) (sdk_flystick s'))"
  unfolding getNumFlyStick_def getFlyStick_def
  by (rule copy_entities_map) (rule copy_flystick_indep)

lemma copy_meatools_map:
  "copy_entities (getNumMeaTool s') (getMeaTool s') (copy_meatool cast) z v =
   Inr (map (\<lambda>s. copy_meatool cast s z) (sdk_meatool s'))"
  unfolding getNumMeaTool_def getMeaTool_def
  by (rule copy_entities_map) (rule copy_meatool_indep)

lemma copy_hands_map:
  "copy_entities (getNumHand s') (getHand s') (copy_hand cast) z v =
   Inr (map (\<lambda>s. copy_hand cast s z) (sdk_hand s'))"
  unfolding getNumHand_def getHand_def by (rule copy_entities_map) (rule copy_hand_indep)

lemma copy_markers_map:
  "copy_entities (getNumMarker s') (getMarker s') (copy_marker cast) z v =
   Inr (map (\<lambda>s. copy_marker cast s z) (sdk_marker s'))"
  unfolding getNumMarker_def getMarker_def
  by (rule copy_entities_map) (rule copy_marker_indep)

lemma copy_bodies_lib_map:
  "copy_entities (getNumBody s') (getBody s') (copy_body_lib cast) z v =
   Inr (map (\<lambda>s. copy_body_lib cast s z) (sdk_body s'))"
  unfolding getNumBody_def getBody_def by (rule copy_entities_map) (rule copy_body_lib_indep)

lemma copy_flysticks_lib_map:
  "copy_entities (getNumFlyStick s') (getFlyStick s') (copy_flystick_lib cast) z v =
   Inr (map (\<lambda>s. copy_flystick_lib cast s z) (sdk_flystick s'))"
  unfolding getNumFlyStick_def getFlyStick_def
  by (rule copy_entities_map) (rule copy_flystick_lib_indep)

lemma copy_meatools_lib_map:
  "copy_entities (getNumMeaTool s') (getMeaTool s') (copy_meatool_lib cast) z v =
   Inr (map (\<lambda>s. copy_meatool_lib cast s z) (sdk_meatool s'))"
  unfolding getNumMeaTool_def getMeaTool_def
  by (rule copy_entities_map) (rule copy_meatool_lib_indep)

lemmas copy_maps =
  copy_bodies_map copy_flysticks_map copy_meatools_map copy_hands_map copy_markers_map
  copy_bodies_lib_map copy_flysticks_lib_map copy_meatools_lib_map

lemmas num_defs =
  getNumBody_def getNumFlyStick_def getNumMeaTool_def getNumHand_def getNumMarker_def

text \<open>What the three \<^verbatim>\<open>receive()\<close> functions return and store when the SDK has received a
  frame, and when it has not.\<close>

lemma DTrack_receive_ok:
  assumes "recv (sdk d) = (True, s')"
  shows "DTrack_receive recv cast d =
    Inr (True,
      d\<lparr>sdk := s',
        act_num_body := int (length (sdk_body s')),
        act_body := map (\<lambda>s. copy_body cast s zero_body) (sdk_body s'),
        act_num_flystick := int (length (sdk_flystick s')),
        act_flystick := map (\<lambda>s. copy_flystick cast s zero_flystick) (sdk_flystick s'),
        act_num_meatool := int (length (sdk_meatool s')),
        act_meatool := map (\<lambda>s. copy_meatool cast s zero_meatool) (sdk_meatool s'),
        act_num_hand := int (length (sdk_hand s')),
        act_hand := map (\<lambda>s. copy_hand cast s zero_hand) (sdk_hand s'),
        act_num_marker := int (length (sdk_marker s')),
        act_marker := map (\<lambda>s. copy_marker cast s zero_marker) (sdk_marker s')\<rparr>)"
  unfolding DTrack_receive_def assms
  by (simp add: copy_maps fault_bind_def) (simp add: num_defs)

lemma DTrack_receive_false:
  "DTrack_receive recv cast d = Inr (False, d') \<longleftrightarrow>
   \<not> fst (recv (sdk d)) \<and> d' = d\<lparr>sdk := snd (recv (sdk d))\<rparr>"
proof (cases "recv (sdk d)")
  case (Pair ok s')
  show ?thesis
  proof (cases ok)
    case True
    with Pair show ?thesis by (simp add: DTrack_receive_ok)
  next
    case False
    with Pair show ?thesis by (auto simp: DTrack_receive_def)
  qed
qed

lemma DTrack2_receive_ok:
  assumes "isLocalDataPortValid (sdk2 d)" and "recv (sdk2 d) = (True, s')"
  shows "DTrack2_receive recv cast d =
    Inr (True,
      d\<lparr>sdk2 := s',
        act_num_body2 := int (length (sdk_body s')),
        act_body2 := map (\<lambda>s. copy_body cast s zero_body) (sdk_body s'),
        act_num_flystick2 := int (length (sdk_flystick s')),
        act_flystick2 := map (\<lambda>s. copy_flystick cast s zero_flystick) (sdk_flystick s'),
        act_num_meatool2 := int (length (sdk_meatool s')),
        act_meatool2 := map (\<lambda>s. copy_meatool cast s zero_meatool) (sdk_meatool s'),
        act_num_hand2 := int (length (sdk_hand s')),
        act_hand2 := map (\<lambda>s. copy_hand cast s zero_hand) (sdk_hand s'),
        act_num_marker2 := int (length (sdk_marker s')),
        act_marker2 := map (\<lambda>s. copy_marker cast s zero_marker) (sdk_marker s')\<rparr>)"
  unfolding DTrack2_receive_def using assms
  by (simp add: copy_maps fault_bind_def) (simp add: num_defs)

lemma DTrack2_receive_false:
  "DTrack2_receive recv cast d = Inr (False, d') \<longleftrightarrow>
   (\<not> isLocalDataPortValid (sdk2 d) \<and> d' = d) \<or>
   (isLocalDataPortValid (sdk2 d) \<and> \<not> fst (recv (sdk2 d)) \<and>
    d' = d\<lparr>sdk2 := snd (recv (sdk2 d))\<rparr>)"
proof (cases "isLocalDataPortValid (sdk2 d)")
  case False
  then show ?thesis by (auto simp: DTrack2_receive_def)
next
  case valid: True
  show ?thesis
  proof (cases "recv (sdk2 d)")
    case (Pair ok s')
    show ?thesis
    proof (cases ok)
      case True
      with Pair valid show ?thesis by (simp add: DTrack2_receive_ok)
    next
      case False
      with Pair valid show ?thesis by (auto simp: DTrack2_receive_def)
    qed
  qed
qed

lemma DTracklib_receive_ok:
  assumes "recv (sdk_lib d) = (True, s')"
  shows "DTracklib_receive recv cast d =
    Inr (True,
      d\<lparr>sdk_lib := s',
        act_nbody := int (length (sdk_body s')),
        act_body_lib := map (\<lambda>s. copy_body_lib cast s zero_body_lib) (sdk_body s'),
        act_nflystick := int (length (sdk_flystick s')),
        act_flystick_lib :=
          map (\<lambda>s. copy_flystick_lib cast s zero_flystick_lib) (sdk_flystick s'),
        act_nmeatool := int (length (sdk_meatool s')),
        act_meatool_lib := map (\<lambda>s. copy_meatool_lib cast s zero_meatool_lib) (sdk_meatool s'),
        act_nglove := int (length (sdk_hand s')),
        act_glove := map (\<lambda>s. copy_hand cast s zero_hand) (sdk_hand s'),
        act_nmarker := int (length (sdk_marker s')),
        act_marker_lib := map (\<lambda>s. copy_marker cast s zero_marker) (sdk_marker s')\<rparr>)"
  unfolding DTracklib_receive_def assms
  by (simp add: copy_maps fault_bind_def) (simp add: num_defs)

lemma DTracklib_receive_false:
  "DTracklib_receive recv cast d = Inr (False, d') \<longleftrightarrow>
   \<not> fst (recv (sdk_lib d)) \<and> d' = d\<lparr>sdk_lib := snd (recv (sdk_lib d))\<rparr>"
proof (cases "recv (sdk_lib d)")
  case (Pair ok s')
  show ?thesis
  proof (cases ok)
    case True
    with Pair show ?thesis by (simp add: DTracklib_receive_ok)
  next
    case False
    with Pair show ?thesis by (auto simp: DTracklib_receive_def)
  qed
qed

text \<open>\<^verbatim>\<open>receive()\<close> never faults on a frame of the SDK: it returns.\<close>

lemma receive_total:
  "\<exists>r. DTrack_receive recv cast d = Inr r"
  "\<exists>r2. DTrack2_receive recv2 cast2 d2 = Inr r2"
  "\<exists>r3. DTracklib_receive recv3 cast3 d3 = Inr r3"
proof -
  show "\<exists>r. DTrack_receive recv cast d = Inr r"
    by (cases "recv (sdk d)"; cases "fst (recv (sdk d))")
       (auto simp: DTrack_receive_ok, auto simp: DTrack_receive_def)
  show "\<exists>r2. DTrack2_receive recv2 cast2 d2 = Inr r2"
    by (cases "isLocalDataPortValid (sdk2 d2)"; cases "recv2 (sdk2 d2)";
        cases "fst (recv2 (sdk2 d2))")
       (auto simp: DTrack2_receive_ok, auto simp: DTrack2_receive_def)
  show "\<exists>r3. DTracklib_receive recv3 cast3 d3 = Inr r3"
    by (cases "recv3 (sdk_lib d3)"; cases "fst (recv3 (sdk_lib d3))")
       (auto simp: DTracklib_receive_ok, auto simp: DTracklib_receive_def)
qed

text \<open>The example objects hold the example frame as \<^verbatim>\<open>receive()\<close> stores it.\<close>

lemma ex_DTrack_received:
  "DTrack_receive ex_recv_frame (\<lambda>x. x) (ex_DTrack\<lparr>sdk := ex_sdk_empty\<rparr>) = Inr (True, ex_DTrack)"
  by (simp add: DTrack_receive_def ex_defs sdk_defs eval_defs copy_defs max_defs zero_defs)

lemma ex_DTrack2_received:
  "DTrack2_receive ex_recv_frame (\<lambda>x. x) (ex_DTrack2\<lparr>sdk2 := ex_sdk_empty\<rparr>) =
   Inr (True, ex_DTrack2)"
  by (simp add: DTrack2_receive_def ex_defs sdk_defs eval_defs copy_defs max_defs zero_defs)

lemma ex_DTracklib_received:
  "DTracklib_receive ex_recv_frame (\<lambda>x. x) (DTracklib_ctor ex_sdk_empty) =
   Inr (True, ex_DTracklib)"
  by (simp add: DTracklib_receive_def DTracklib_ctor_def ex_defs sdk_defs eval_defs copy_defs
      max_defs zero_defs)

subsection \<open>A failed receive keeps the last frame\<close>

text \<open>
  Claim C1. For each of the three facades: when \<^verbatim>\<open>receive()\<close> returns false, every stored
  collection and every stored count (bodies, flysticks, measurement tools, hands or gloves,
  markers) is what it was before the call, so the last good frame stays readable; and
  \<^verbatim>\<open>receive()\<close> does return false whenever the receive of the SDK fails.
\<close>

theorem receive_failure_keeps_frame:
  "(DTrack_receive recv cast d = Inr (False, d') \<longrightarrow>
      act_num_body d' = act_num_body d \<and> act_body d' = act_body d \<and>
      act_num_flystick d' = act_num_flystick d \<and> act_flystick d' = act_flystick d \<and>
      act_num_meatool d' = act_num_meatool d \<and> act_meatool d' = act_meatool d \<and>
      act_num_hand d' = act_num_hand d \<and> act_hand d' = act_hand d \<and>
      act_num_marker d' = act_num_marker d \<and> act_marker d' = act_marker d) \<and>
   (\<not> fst (recv (sdk d)) \<longrightarrow> (\<exists>e. DTrack_receive recv cast d = Inr (False, e))) \<and>
   (DTrack2_receive recv2 cast2 d2 = Inr (False, d2') \<longrightarrow>
      act_num_body2 d2' = act_num_body2 d2 \<and> act_body2 d2' = act_body2 d2 \<and>
      act_num_flystick2 d2' = act_num_flystick2 d2 \<and> act_flystick2 d2' = act_flystick2 d2 \<and>
      act_num_meatool2 d2' = act_num_meatool2 d2 \<and> act_meatool2 d2' = act_meatool2 d2 \<and>
      act_num_hand2 d2' = act_num_hand2 d2 \<and> act_hand2 d2' = act_hand2 d2 \<and>
      act_num_marker2 d2' = act_num_marker2 d2 \<and> act_marker2 d2' = act_marker2 d2) \<and>
   (\<not> fst (recv2 (sdk2 d2)) \<longrightarrow> (\<exists>e. DTrack2_receive recv2 cast2 d2 = Inr (False, e))) \<and>
   (DTracklib_receive recv3 cast3 d3 = Inr (False, d3') \<longrightarrow>
      act_nbody d3' = act_nbody d3 \<and> act_body_lib d3' = act_body_lib d3 \<and>
      act_nflystick d3' = act_nflystick d3 \<and> act_flystick_lib d3' = act_flystick_lib d3 \<and>
      act_nmeatool d3' = act_nmeatool d3 \<and> act_meatool_lib d3' = act_meatool_lib d3 \<and>
      act_nglove d3' = act_nglove d3 \<and> act_glove d3' = act_glove d3 \<and>
      act_nmarker d3' = act_nmarker d3 \<and> act_marker_lib d3' = act_marker_lib d3) \<and>
   (\<not> fst (recv3 (sdk_lib d3)) \<longrightarrow> (\<exists>e. DTracklib_receive recv3 cast3 d3 = Inr (False, e)))"
proof (intro conjI impI)
  assume "\<not> fst (recv (sdk d))"
  then show "\<exists>e. DTrack_receive recv cast d = Inr (False, e)"
    by (simp add: DTrack_receive_false)
next
  assume "\<not> fst (recv2 (sdk2 d2))"
  then show "\<exists>e. DTrack2_receive recv2 cast2 d2 = Inr (False, e)"
    by (cases "isLocalDataPortValid (sdk2 d2)") (simp_all add: DTrack2_receive_false)
next
  assume "\<not> fst (recv3 (sdk_lib d3))"
  then show "\<exists>e. DTracklib_receive recv3 cast3 d3 = Inr (False, e)"
    by (simp add: DTracklib_receive_false)
qed (auto simp: DTrack_receive_false DTrack2_receive_false DTracklib_receive_false)

theorem receive_failure_keeps_frame_witness:
  "DTrack_receive ex_recv_parse_error (\<lambda>x. x) ex_DTrack =
     Inr (False, ex_DTrack\<lparr>sdk := ex_sdk\<lparr>sdk_body := []\<rparr>\<rparr>) \<and>
   act_num_body (ex_DTrack\<lparr>sdk := ex_sdk\<lparr>sdk_body := []\<rparr>\<rparr>) = 1 \<and>
   act_body (ex_DTrack\<lparr>sdk := ex_sdk\<lparr>sdk_body := []\<rparr>\<rparr>) = [ex_act_body] \<and>
   DTrack2_receive ex_recv_parse_error (\<lambda>x. x) ex_DTrack2 =
     Inr (False, ex_DTrack2\<lparr>sdk2 := ex_sdk\<lparr>sdk_body := []\<rparr>\<rparr>) \<and>
   act_body2 (ex_DTrack2\<lparr>sdk2 := ex_sdk\<lparr>sdk_body := []\<rparr>\<rparr>) = [ex_act_body] \<and>
   DTracklib_receive ex_recv_parse_error (\<lambda>x. x) ex_DTracklib =
     Inr (False, ex_DTracklib\<lparr>sdk_lib := ex_sdk\<lparr>sdk_body := []\<rparr>\<rparr>) \<and>
   act_nbody (ex_DTracklib\<lparr>sdk_lib := ex_sdk\<lparr>sdk_body := []\<rparr>\<rparr>) = 1 \<and>
   act_marker_lib (ex_DTracklib\<lparr>sdk_lib := ex_sdk\<lparr>sdk_body := []\<rparr>\<rparr>) = [ex_act_marker]"
proof -
  have h1: "DTrack_receive ex_recv_parse_error (\<lambda>x. x) ex_DTrack =
            Inr (False, ex_DTrack\<lparr>sdk := ex_sdk\<lparr>sdk_body := []\<rparr>\<rparr>)"
    by (simp add: DTrack_receive_def ex_recv_parse_error_def ex_DTrack_def)
  have h2: "DTrack2_receive ex_recv_parse_error (\<lambda>x. x) ex_DTrack2 =
            Inr (False, ex_DTrack2\<lparr>sdk2 := ex_sdk\<lparr>sdk_body := []\<rparr>\<rparr>)"
    by (simp add: DTrack2_receive_def ex_recv_parse_error_def ex_DTrack2_def ex_sdk_def
        isLocalDataPortValid_def)
  have h3: "DTracklib_receive ex_recv_parse_error (\<lambda>x. x) ex_DTracklib =
            Inr (False, ex_DTracklib\<lparr>sdk_lib := ex_sdk\<lparr>sdk_body := []\<rparr>\<rparr>)"
    by (simp add: DTracklib_receive_def ex_recv_parse_error_def ex_DTracklib_def)
  from h1 h2 h3
    receive_failure_keeps_frame [of ex_recv_parse_error "\<lambda>x. x" ex_DTrack
      "ex_DTrack\<lparr>sdk := ex_sdk\<lparr>sdk_body := []\<rparr>\<rparr>"
      ex_recv_parse_error "\<lambda>x. x" ex_DTrack2 "ex_DTrack2\<lparr>sdk2 := ex_sdk\<lparr>sdk_body := []\<rparr>\<rparr>"
      ex_recv_parse_error "\<lambda>x. x" ex_DTracklib
      "ex_DTracklib\<lparr>sdk_lib := ex_sdk\<lparr>sdk_body := []\<rparr>\<rparr>"]
  show ?thesis
    by (simp add: ex_DTrack_def ex_DTrack2_def ex_DTracklib_def)
qed

subsection \<open>The dummy body\<close>

text \<open>
  Claim C4. For every integer \<open>i\<close> that is greater than or equal to the current body count,
  \<^verbatim>\<open>DTrack::get_body(i)\<close> returns a dummy body with quality -1, id \<open>i\<close>, and zeroed location and
  rotation; \<^verbatim>\<open>DTrack2::get_body\<close> does the same.
\<close>

theorem get_body_dummy:
  "(DTrack_get_num_body d \<le> i \<longrightarrow>
      DTrack_get_body d i =
        Inr \<lparr>b_id = i, b_quality = - 1, b_loc = [0, 0, 0],
             b_rot = [0, 0, 0, 0, 0, 0, 0, 0, 0]\<rparr>) \<and>
   (act_num_body2 d2 \<le> i2 \<longrightarrow>
      DTrack2_get_body d2 i2 =
        Inr \<lparr>b_id = i2, b_quality = - 1, b_loc = [0, 0, 0],
             b_rot = [0, 0, 0, 0, 0, 0, 0, 0, 0]\<rparr>)"
  by (simp add: DTrack_get_body_def DTrack2_get_body_def DTrack_get_num_body_def zero_body_def
      numeral_nat)

theorem get_body_dummy_witness:
  "DTrack_get_num_body ex_DTrack \<le> 1 \<and>
   DTrack_get_body ex_DTrack 1 =
     Inr \<lparr>b_id = 1, b_quality = - 1, b_loc = [0, 0, 0], b_rot = [0, 0, 0, 0, 0, 0, 0, 0, 0]\<rparr> \<and>
   act_num_body2 ex_DTrack2 \<le> 7 \<and>
   DTrack2_get_body ex_DTrack2 7 =
     Inr \<lparr>b_id = 7, b_quality = - 1, b_loc = [0, 0, 0], b_rot = [0, 0, 0, 0, 0, 0, 0, 0, 0]\<rparr>"
  using get_body_dummy [of ex_DTrack 1 ex_DTrack2 7]
  by (simp add: DTrack_get_num_body_def ex_DTrack_def ex_DTrack2_def)

subsection \<open>A negative index\<close>

text \<open>
  Claim C3 says that \<^verbatim>\<open>get_body(i)\<close> of DTrack and DTrack2 never reads outside the stored vector,
  for negative \<open>i\<close> too. The functions compare \<open>i\<close> with the count only, so a negative index passes
  the test and the vector is read in front of its first element. On the objects that hold the
  example frame, index -1 is such a read.
\<close>

theorem get_body_negative_index:
  "DTrack_get_body ex_DTrack (- 1) = Inl OutOfRange \<and>
   DTrack2_get_body ex_DTrack2 (- 1) = Inl OutOfRange"
  by (simp add: DTrack_get_body_def DTrack2_get_body_def vector_index_def ex_DTrack_def
      ex_DTrack2_def)

lemma negative_index_out_of_range:
  "idx < 0 \<Longrightarrow> 0 \<le> act_num_body d \<Longrightarrow> DTrack_get_body d idx = Inl OutOfRange"
  "idx < 0 \<Longrightarrow> 0 \<le> act_num_body2 d2 \<Longrightarrow> DTrack2_get_body d2 idx = Inl OutOfRange"
  by (simp_all add: DTrack_get_body_def DTrack2_get_body_def vector_index_def)

subsection \<open>Setting a parameter\<close>

text \<open>
  Claim C6. For all strings category, name and value, \<^verbatim>\<open>DTrack2::set_parameter\<close> hands exactly the
  string "dtrack2 set " + category + " " + name + " " + value to the command exchange of the SDK,
  once, and returns true if and only if the exchange reports the result 1; the object is changed
  by that exchange only. With "cam", "exp" and "50" the string is "dtrack2 set cam exp 50".
\<close>

theorem set_parameter_exchange:
  "DTrack2_set_parameter sendDTrack2Command category name val d =
     (fst (sendDTrack2Command (''dtrack2 set '' @ category @ '' '' @ name @ '' '' @ val) (sdk2 d))
        = 1,
      d\<lparr>sdk2 :=
          snd (sendDTrack2Command (''dtrack2 set '' @ category @ '' '' @ name @ '' '' @ val)
                 (sdk2 d))\<rparr>) \<and>
   DTrack2_set_parameter sendDTrack2Command ''cam'' ''exp'' ''50'' d =
     (fst (sendDTrack2Command ''dtrack2 set cam exp 50'' (sdk2 d)) = 1,
      d\<lparr>sdk2 := snd (sendDTrack2Command ''dtrack2 set cam exp 50'' (sdk2 d))\<rparr>)"
  by (auto simp: DTrack2_set_parameter_def DTrack2_set_parameter_total_def
      DTrack2_send_command_def split: prod.splits)

theorem set_parameter_exchange_witness:
  "DTrack2_set_parameter ex_exchange_ok ''cam'' ''exp'' ''50'' ex_DTrack2 = (True, ex_DTrack2) \<and>
   DTrack2_set_parameter (\<lambda>str s. (if str = ''dtrack2 set cam exp 50'' then 0 else 1, s))
     ''cam'' ''exp'' ''50'' ex_DTrack2 = (False, ex_DTrack2)"
  using set_parameter_exchange [of ex_exchange_ok "''cam''" "''exp''" "''50''" ex_DTrack2]
    set_parameter_exchange [of "\<lambda>str s. (if str = ''dtrack2 set cam exp 50'' then 0 else 1, s)"
      "''cam''" "''exp''" "''50''" ex_DTrack2]
  by (simp add: ex_exchange_ok_def ex_DTrack2_def)

subsection \<open>The last error of the device\<close>

text \<open>
  Claim C7. \<^verbatim>\<open>DTrack2::get_lasterror(int&)\<close> writes the last error code of the device into its
  parameter and returns true if and only if that code is not zero. The overload for a string
  returns false and leaves its parameter as it is when the code is 0, and writes the description
  of the error and returns true when the code is not zero.
\<close>

theorem get_lasterror_result:
  "snd (DTrack2_get_lasterror_code d errorcode) = getLastDTrackError (sdk2 d) \<and>
   (fst (DTrack2_get_lasterror_code d errorcode) \<longleftrightarrow> getLastDTrackError (sdk2 d) \<noteq> 0) \<and>
   (getLastDTrackError (sdk2 d) = 0 \<longrightarrow>
      DTrack2_get_lasterror_string d errorstring = (False, errorstring)) \<and>
   (getLastDTrackError (sdk2 d') \<noteq> 0 \<longrightarrow>
      DTrack2_get_lasterror_string d' errorstring =
        (True, getLastDTrackErrorDescription (sdk2 d')))"
  by (auto simp: DTrack2_get_lasterror_code_def DTrack2_get_lasterror_string_def Let_def)

theorem get_lasterror_result_witness:
  "getLastDTrackError (sdk2 ex_DTrack2) = 0 \<and>
   DTrack2_get_lasterror_code ex_DTrack2 17 = (False, 0) \<and>
   DTrack2_get_lasterror_string ex_DTrack2 ''old'' = (False, ''old'') \<and>
   getLastDTrackError (sdk2 (ex_DTrack2\<lparr>sdk2 := ex_sdk_error\<rparr>)) \<noteq> 0 \<and>
   DTrack2_get_lasterror_code (ex_DTrack2\<lparr>sdk2 := ex_sdk_error\<rparr>) 17 = (True, - 4) \<and>
   DTrack2_get_lasterror_string (ex_DTrack2\<lparr>sdk2 := ex_sdk_error\<rparr>) ''old'' =
     (True, ''invalid parameter'')"
  using get_lasterror_result [of ex_DTrack2 17 "''old''" "ex_DTrack2\<lparr>sdk2 := ex_sdk_error\<rparr>"]
    get_lasterror_result [of "ex_DTrack2\<lparr>sdk2 := ex_sdk_error\<rparr>" 17 "''old''"
      "ex_DTrack2\<lparr>sdk2 := ex_sdk_error\<rparr>"]
  by (simp add: getLastDTrackError_def getLastDTrackErrorDescription_def ex_DTrack2_def
      ex_sdk_def ex_sdk_error_def ex_sdk_empty_def prod_eq_iff)

subsection \<open>The number of calibrated bodies\<close>

lemma DTracklib_receive_nbodycal:
  assumes "DTracklib_receive recv cast d = Inr (b, d')"
  shows "act_nbodycal d' = act_nbodycal d"
proof (cases "recv (sdk_lib d)")
  case (Pair ok s')
  show ?thesis
  proof (cases ok)
    case True
    with Pair assms show ?thesis by (auto simp: DTracklib_receive_ok)
  next
    case False
    with Pair assms show ?thesis by (auto simp: DTracklib_receive_def)
  qed
qed

lemma DTracklib_send_nbodycal:
  "DTracklib_send sendCommand cmd val d = (b, d') \<Longrightarrow> act_nbodycal d' = act_nbodycal d"
  by (auto simp: DTracklib_send_def split: if_splits option.splits prod.splits)

text \<open>
  Claim C9. In every state that a DTracklib object can reach, \<^verbatim>\<open>get_nbodycal()\<close> returns -1: the
  constructor sets the field to -1 and no operation assigns it afterwards, a successful
  \<^verbatim>\<open>receive()\<close> included.
\<close>

theorem nbodycal_stays_unknown:
  "DTracklib_reachable d \<Longrightarrow> DTracklib_get_nbodycal d = - 1"
proof (induction rule: DTracklib_reachable.induct)
  case (reach_ctor new_sdk)
  show ?case by (simp add: DTracklib_get_nbodycal_def DTracklib_ctor_def)
next
  case (reach_receive d recv cast b d')
  then show ?case by (simp add: DTracklib_get_nbodycal_def DTracklib_receive_nbodycal)
next
  case (reach_send d sendCommand cmd val b d')
  then show ?case by (simp add: DTracklib_get_nbodycal_def DTracklib_send_nbodycal)
qed

theorem nbodycal_stays_unknown_witness:
  "DTracklib_reachable ex_DTracklib \<and> DTracklib_get_nbodycal ex_DTracklib = - 1"
proof -
  have "DTracklib_reachable ex_DTracklib"
    by (rule reach_receive [OF reach_ctor ex_DTracklib_received])
  with nbodycal_stays_unknown [of ex_DTracklib] show ?thesis by simp
qed

subsection \<open>Sending a remote command with DTracklib\<close>

text \<open>
  Claim C10. \<^verbatim>\<open>DTracklib::send(cmd, val)\<close> returns true whenever the local data port is valid and
  \<open>cmd\<close> is one of the six command codes, whatever \<^verbatim>\<open>sendCommand\<close> of the SDK returns; for any
  other command code it returns false and sends nothing; for an invalid data port it returns
  false.
\<close>

theorem send_result:
  "(isLocalDataPortValid (sdk_lib d) \<and>
    cmd \<in> {DTRACKLIB_CMD_CAMERAS_OFF, DTRACKLIB_CMD_CAMERAS_ON,
           DTRACKLIB_CMD_CAMERAS_AND_CALC_ON, DTRACKLIB_CMD_SEND_DATA,
           DTRACKLIB_CMD_STOP_DATA, DTRACKLIB_CMD_SEND_N_DATA} \<longrightarrow>
      (\<exists>str. DTracklib_send sendCommand cmd val d =
                (True, d\<lparr>sdk_lib := snd (sendCommand str (sdk_lib d))\<rparr>))) \<and>
   (isLocalDataPortValid (sdk_lib d) \<and>
    cmd' \<notin> {DTRACKLIB_CMD_CAMERAS_OFF, DTRACKLIB_CMD_CAMERAS_ON,
            DTRACKLIB_CMD_CAMERAS_AND_CALC_ON, DTRACKLIB_CMD_SEND_DATA,
            DTRACKLIB_CMD_STOP_DATA, DTRACKLIB_CMD_SEND_N_DATA} \<longrightarrow>
      DTracklib_send sendCommand cmd' val d = (False, d)) \<and>
   (\<not> isLocalDataPortValid (sdk_lib d') \<longrightarrow>
      DTracklib_send sendCommand cmd'' val d' = (False, d'))"
proof (intro conjI impI)
  assume a: "isLocalDataPortValid (sdk_lib d) \<and>
    cmd \<in> {DTRACKLIB_CMD_CAMERAS_OFF, DTRACKLIB_CMD_CAMERAS_ON,
           DTRACKLIB_CMD_CAMERAS_AND_CALC_ON, DTRACKLIB_CMD_SEND_DATA,
           DTRACKLIB_CMD_STOP_DATA, DTRACKLIB_CMD_SEND_N_DATA}"
  then have "DTracklib_send_switch cmd val \<noteq> None"
    by (auto simp: DTracklib_send_switch_def)
  then obtain c where "DTracklib_send_switch cmd val = Some c"
    by blast
  with a have "DTracklib_send sendCommand cmd val d =
      (True, d\<lparr>sdk_lib := snd (sendCommand (''dtrack '' @ c) (sdk_lib d))\<rparr>)"
    by (simp add: DTracklib_send_def split: prod.splits)
  then show "\<exists>str. DTracklib_send sendCommand cmd val d =
      (True, d\<lparr>sdk_lib := snd (sendCommand str (sdk_lib d))\<rparr>)" ..
qed (auto simp: DTracklib_send_def DTracklib_send_switch_def)

theorem send_result_witness:
  "DTracklib_send ex_sendCommand_fails DTRACKLIB_CMD_SEND_N_DATA 5 ex_DTracklib =
     (True, ex_DTracklib) \<and>
   DTracklib_send ex_sendCommand_fails 0x1002 5 ex_DTracklib = (False, ex_DTracklib) \<and>
   DTracklib_send ex_sendCommand_fails DTRACKLIB_CMD_SEND_DATA 0
     (ex_DTracklib\<lparr>sdk_lib := ex_sdk_invalid\<rparr>) =
     (False, ex_DTracklib\<lparr>sdk_lib := ex_sdk_invalid\<rparr>)"
  using send_result [of ex_DTracklib DTRACKLIB_CMD_SEND_N_DATA ex_sendCommand_fails 5 "0x1002"
      "ex_DTracklib\<lparr>sdk_lib := ex_sdk_invalid\<rparr>" DTRACKLIB_CMD_SEND_DATA]
  by (simp add: DTracklib_send_def DTracklib_send_switch_def isLocalDataPortValid_def
      ex_DTracklib_def ex_sdk_def ex_sdk_invalid_def ex_sdk_empty_def ex_sendCommand_fails_def
      cmd_defs)

subsection \<open>A successful receive stores the frame of the SDK\<close>

lemma DTrack_receive_true:
  "DTrack_receive recv cast d = Inr (True, d') \<longleftrightarrow>
   fst (recv (sdk d)) \<and>
   d' = d\<lparr>sdk := snd (recv (sdk d)),
        act_num_body := int (length (sdk_body (snd (recv (sdk d))))),
        act_body := map (\<lambda>s. copy_body cast s zero_body) (sdk_body (snd (recv (sdk d)))),
        act_num_flystick := int (length (sdk_flystick (snd (recv (sdk d))))),
        act_flystick :=
          map (\<lambda>s. copy_flystick cast s zero_flystick) (sdk_flystick (snd (recv (sdk d)))),
        act_num_meatool := int (length (sdk_meatool (snd (recv (sdk d))))),
        act_meatool :=
          map (\<lambda>s. copy_meatool cast s zero_meatool) (sdk_meatool (snd (recv (sdk d)))),
        act_num_hand := int (length (sdk_hand (snd (recv (sdk d))))),
        act_hand := map (\<lambda>s. copy_hand cast s zero_hand) (sdk_hand (snd (recv (sdk d)))),
        act_num_marker := int (length (sdk_marker (snd (recv (sdk d))))),
        act_marker :=
          map (\<lambda>s. copy_marker cast s zero_marker) (sdk_marker (snd (recv (sdk d))))\<rparr>"
proof (cases "recv (sdk d)")
  case (Pair ok s')
  show ?thesis
  proof (cases ok)
    case True
    with Pair show ?thesis by (auto simp: DTrack_receive_ok)
  next
    case False
    with Pair show ?thesis by (simp add: DTrack_receive_def)
  qed
qed

lemma DTrack2_receive_true:
  "DTrack2_receive recv cast d = Inr (True, d') \<longleftrightarrow>
   isLocalDataPortValid (sdk2 d) \<and> fst (recv (sdk2 d)) \<and>
   d' = d\<lparr>sdk2 := snd (recv (sdk2 d)),
        act_num_body2 := int (length (sdk_body (snd (recv (sdk2 d))))),
        act_body2 := map (\<lambda>s. copy_body cast s zero_body) (sdk_body (snd (recv (sdk2 d)))),
        act_num_flystick2 := int (length (sdk_flystick (snd (recv (sdk2 d))))),
        act_flystick2 :=
          map (\<lambda>s. copy_flystick cast s zero_flystick) (sdk_flystick (snd (recv (sdk2 d)))),
        act_num_meatool2 := int (length (sdk_meatool (snd (recv (sdk2 d))))),
        act_meatool2 :=
          map (\<lambda>s. copy_meatool cast s zero_meatool) (sdk_meatool (snd (recv (sdk2 d)))),
        act_num_hand2 := int (length (sdk_hand (snd (recv (sdk2 d))))),
        act_hand2 := map (\<lambda>s. copy_hand cast s zero_hand) (sdk_hand (snd (recv (sdk2 d)))),
        act_num_marker2 := int (length (sdk_marker (snd (recv (sdk2 d))))),
        act_marker2 :=
          map (\<lambda>s. copy_marker cast s zero_marker) (sdk_marker (snd (recv (sdk2 d))))\<rparr>"
proof (cases "isLocalDataPortValid (sdk2 d)")
  case False
  then show ?thesis by (simp add: DTrack2_receive_def)
next
  case valid: True
  show ?thesis
  proof (cases "recv (sdk2 d)")
    case (Pair ok s')
    show ?thesis
    proof (cases ok)
      case True
      with Pair valid show ?thesis by (auto simp: DTrack2_receive_ok)
    next
      case False
      with Pair valid show ?thesis by (simp add: DTrack2_receive_def)
    qed
  qed
qed

lemma DTracklib_receive_true:
  "DTracklib_receive recv cast d = Inr (True, d') \<longleftrightarrow>
   fst (recv (sdk_lib d)) \<and>
   d' = d\<lparr>sdk_lib := snd (recv (sdk_lib d)),
        act_nbody := int (length (sdk_body (snd (recv (sdk_lib d))))),
        act_body_lib :=
          map (\<lambda>s. copy_body_lib cast s zero_body_lib) (sdk_body (snd (recv (sdk_lib d)))),
        act_nflystick := int (length (sdk_flystick (snd (recv (sdk_lib d))))),
        act_flystick_lib :=
          map (\<lambda>s. copy_flystick_lib cast s zero_flystick_lib)
            (sdk_flystick (snd (recv (sdk_lib d)))),
        act_nmeatool := int (length (sdk_meatool (snd (recv (sdk_lib d))))),
        act_meatool_lib :=
          map (\<lambda>s. copy_meatool_lib cast s zero_meatool_lib)
            (sdk_meatool (snd (recv (sdk_lib d)))),
        act_nglove := int (length (sdk_hand (snd (recv (sdk_lib d))))),
        act_glove := map (\<lambda>s. copy_hand cast s zero_hand) (sdk_hand (snd (recv (sdk_lib d)))),
        act_nmarker := int (length (sdk_marker (snd (recv (sdk_lib d))))),
        act_marker_lib :=
          map (\<lambda>s. copy_marker cast s zero_marker) (sdk_marker (snd (recv (sdk_lib d))))\<rparr>"
proof (cases "recv (sdk_lib d)")
  case (Pair ok s')
  show ?thesis
  proof (cases ok)
    case True
    with Pair show ?thesis by (auto simp: DTracklib_receive_ok)
  next
    case False
    with Pair show ?thesis by (simp add: DTracklib_receive_def)
  qed
qed

text \<open>After a successful \<^verbatim>\<open>receive()\<close> every count is the size of its vector.\<close>

lemma receive_counts_are_sizes:
  "DTrack_receive recv cast d = Inr (True, d') \<Longrightarrow>
     act_num_body d' = int (length (act_body d')) \<and>
     act_num_flystick d' = int (length (act_flystick d')) \<and>
     act_num_meatool d' = int (length (act_meatool d')) \<and>
     act_num_hand d' = int (length (act_hand d')) \<and>
     act_num_marker d' = int (length (act_marker d'))"
  "DTrack2_receive recv2 cast2 d2 = Inr (True, d2') \<Longrightarrow>
     act_num_body2 d2' = int (length (act_body2 d2')) \<and>
     act_num_flystick2 d2' = int (length (act_flystick2 d2')) \<and>
     act_num_meatool2 d2' = int (length (act_meatool2 d2')) \<and>
     act_num_hand2 d2' = int (length (act_hand2 d2')) \<and>
     act_num_marker2 d2' = int (length (act_marker2 d2'))"
  "DTracklib_receive recv3 cast3 d3 = Inr (True, d3') \<Longrightarrow>
     act_nbody d3' = int (length (act_body_lib d3')) \<and>
     act_nflystick d3' = int (length (act_flystick_lib d3')) \<and>
     act_nmeatool d3' = int (length (act_meatool_lib d3')) \<and>
     act_nglove d3' = int (length (act_glove d3')) \<and>
     act_nmarker d3' = int (length (act_marker_lib d3'))"
  by (simp_all add: DTrack_receive_true DTrack2_receive_true DTracklib_receive_true)

text \<open>
  Claim C5. Whenever the receive of the SDK succeeds, \<^verbatim>\<open>DTrack::receive()\<close> returns true, and
  afterwards the stored body collection has exactly \<^verbatim>\<open>getNumBody()\<close> entries, of which the i-th
  carries the id, the quality, the 3 location components and the 9 components of the rotation
  matrix of the i-th body of the SDK, converted to \<^verbatim>\<open>float\<close>, in the order of the SDK. The same
  holds for flysticks, measurement tools, hands and markers (a marker has no rotation).
\<close>

theorem receive_success_stores_frame:
  assumes "recv (sdk d) = (True, s')"
  shows "\<exists>d'. DTrack_receive recv cast d = Inr (True, d') \<and>
    (DTrack_get_num_body d' = getNumBody s' \<and> int (length (act_body d')) = getNumBody s' \<and>
     (\<forall>i<length (act_body d'). \<exists>src. getBody s' (int i) = Some src \<and>
        b_id (act_body d' ! i) = sb_id src \<and>
        b_quality (act_body d' ! i) = cast (sb_quality src) \<and>
        length (b_loc (act_body d' ! i)) = 3 \<and>
        (\<forall>j<3. b_loc (act_body d' ! i) ! j = cast (sb_loc src ! j)) \<and>
        length (b_rot (act_body d' ! i)) = 9 \<and>
        (\<forall>j<9. b_rot (act_body d' ! i) ! j = cast (sb_rot src ! j)))) \<and>
    (DTrack_get_num_flystick d' = getNumFlyStick s' \<and>
     int (length (act_flystick d')) = getNumFlyStick s' \<and>
     (\<forall>i<length (act_flystick d'). \<exists>src. getFlyStick s' (int i) = Some src \<and>
        fs_id (act_flystick d' ! i) = sf_id src \<and>
        fs_quality (act_flystick d' ! i) = cast (sf_quality src) \<and>
        length (fs_loc (act_flystick d' ! i)) = 3 \<and>
        (\<forall>j<3. fs_loc (act_flystick d' ! i) ! j = cast (sf_loc src ! j)) \<and>
        length (fs_rot (act_flystick d' ! i)) = 9 \<and>
        (\<forall>j<9. fs_rot (act_flystick d' ! i) ! j = cast (sf_rot src ! j)))) \<and>
    (DTrack_get_num_meatool d' = getNumMeaTool s' \<and>
     int (length (act_meatool d')) = getNumMeaTool s' \<and>
     (\<forall>i<length (act_meatool d'). \<exists>src. getMeaTool s' (int i) = Some src \<and>
        mt_id (act_meatool d' ! i) = st_id src \<and>
        mt_quality (act_meatool d' ! i) = cast (st_quality src) \<and>
        length (mt_loc (act_meatool d' ! i)) = 3 \<and>
        (\<forall>j<3. mt_loc (act_meatool d' ! i) ! j = cast (st_loc src ! j)) \<and>
        length (mt_rot (act_meatool d' ! i)) = 9 \<and>
        (\<forall>j<9. mt_rot (act_meatool d' ! i) ! j = cast (st_rot src ! j)))) \<and>
    (DTrack_get_num_hand d' = getNumHand s' \<and> int (length (act_hand d')) = getNumHand s' \<and>
     (\<forall>i<length (act_hand d'). \<exists>src. getHand s' (int i) = Some src \<and>
        h_id (act_hand d' ! i) = sh_id src \<and>
        h_quality (act_hand d' ! i) = cast (sh_quality src) \<and>
        length (h_loc (act_hand d' ! i)) = 3 \<and>
        (\<forall>j<3. h_loc (act_hand d' ! i) ! j = cast (sh_loc src ! j)) \<and>
        length (h_rot (act_hand d' ! i)) = 9 \<and>
        (\<forall>j<9. h_rot (act_hand d' ! i) ! j = cast (sh_rot src ! j)))) \<and>
    (DTrack_get_num_marker d' = getNumMarker s' \<and>
     int (length (act_marker d')) = getNumMarker s' \<and>
     (\<forall>i<length (act_marker d'). \<exists>src. getMarker s' (int i) = Some src \<and>
        m_id (act_marker d' ! i) = sm_id src \<and>
        m_quality (act_marker d' ! i) = cast (sm_quality src) \<and>
        length (m_loc (act_marker d' ! i)) = 3 \<and>
        (\<forall>j<3. m_loc (act_marker d' ! i) ! j = cast (sm_loc src ! j))))"
proof -
  let ?d' = "d\<lparr>sdk := s',
        act_num_body := int (length (sdk_body s')),
        act_body := map (\<lambda>s. copy_body cast s zero_body) (sdk_body s'),
        act_num_flystick := int (length (sdk_flystick s')),
        act_flystick := map (\<lambda>s. copy_flystick cast s zero_flystick) (sdk_flystick s'),
        act_num_meatool := int (length (sdk_meatool s')),
        act_meatool := map (\<lambda>s. copy_meatool cast s zero_meatool) (sdk_meatool s'),
        act_num_hand := int (length (sdk_hand s')),
        act_hand := map (\<lambda>s. copy_hand cast s zero_hand) (sdk_hand s'),
        act_num_marker := int (length (sdk_marker s')),
        act_marker := map (\<lambda>s. copy_marker cast s zero_marker) (sdk_marker s')\<rparr>"
  have r: "DTrack_receive recv cast d = Inr (True, ?d')"
    using assms by (rule DTrack_receive_ok)
  have body: "DTrack_get_num_body ?d' = getNumBody s' \<and>
     int (length (act_body ?d')) = getNumBody s' \<and>
     (\<forall>i<length (act_body ?d'). \<exists>src. getBody s' (int i) = Some src \<and>
        b_id (act_body ?d' ! i) = sb_id src \<and>
        b_quality (act_body ?d' ! i) = cast (sb_quality src) \<and>
        length (b_loc (act_body ?d' ! i)) = 3 \<and>
        (\<forall>j<3. b_loc (act_body ?d' ! i) ! j = cast (sb_loc src ! j)) \<and>
        length (b_rot (act_body ?d' ! i)) = 9 \<and>
        (\<forall>j<9. b_rot (act_body ?d' ! i) ! j = cast (sb_rot src ! j)))"
    by (simp add: DTrack_get_num_body_def getNumBody_def getBody_def sdk_get_nth copy_body_def
        copy_array_length copy_array_nth)
  have flystick: "DTrack_get_num_flystick ?d' = getNumFlyStick s' \<and>
     int (length (act_flystick ?d')) = getNumFlyStick s' \<and>
     (\<forall>i<length (act_flystick ?d'). \<exists>src. getFlyStick s' (int i) = Some src \<and>
        fs_id (act_flystick ?d' ! i) = sf_id src \<and>
        fs_quality (act_flystick ?d' ! i) = cast (sf_quality src) \<and>
        length (fs_loc (act_flystick ?d' ! i)) = 3 \<and>
        (\<forall>j<3. fs_loc (act_flystick ?d' ! i) ! j = cast (sf_loc src ! j)) \<and>
        length (fs_rot (act_flystick ?d' ! i)) = 9 \<and>
        (\<forall>j<9. fs_rot (act_flystick ?d' ! i) ! j = cast (sf_rot src ! j)))"
    by (simp add: DTrack_get_num_flystick_def getNumFlyStick_def getFlyStick_def sdk_get_nth
        copy_flystick_def copy_array_length copy_array_nth)
  have meatool: "DTrack_get_num_meatool ?d' = getNumMeaTool s' \<and>
     int (length (act_meatool ?d')) = getNumMeaTool s' \<and>
     (\<forall>i<length (act_meatool ?d'). \<exists>src. getMeaTool s' (int i) = Some src \<and>
        mt_id (act_meatool ?d' ! i) = st_id src \<and>
        mt_quality (act_meatool ?d' ! i) = cast (st_quality src) \<and>
        length (mt_loc (act_meatool ?d' ! i)) = 3 \<and>
        (\<forall>j<3. mt_loc (act_meatool ?d' ! i) ! j = cast (st_loc src ! j)) \<and>
        length (mt_rot (act_meatool ?d' ! i)) = 9 \<and>
        (\<forall>j<9. mt_rot (act_meatool ?d' ! i) ! j = cast (st_rot src ! j)))"
    by (simp add: DTrack_get_num_meatool_def getNumMeaTool_def getMeaTool_def sdk_get_nth
        copy_meatool_def copy_array_length copy_array_nth)
  have hand: "DTrack_get_num_hand ?d' = getNumHand s' \<and>
     int (length (act_hand ?d')) = getNumHand s' \<and>
     (\<forall>i<length (act_hand ?d'). \<exists>src. getHand s' (int i) = Some src \<and>
        h_id (act_hand ?d' ! i) = sh_id src \<and>
        h_quality (act_hand ?d' ! i) = cast (sh_quality src) \<and>
        length (h_loc (act_hand ?d' ! i)) = 3 \<and>
        (\<forall>j<3. h_loc (act_hand ?d' ! i) ! j = cast (sh_loc src ! j)) \<and>
        length (h_rot (act_hand ?d' ! i)) = 9 \<and>
        (\<forall>j<9. h_rot (act_hand ?d' ! i) ! j = cast (sh_rot src ! j)))"
    by (simp add: DTrack_get_num_hand_def getNumHand_def getHand_def sdk_get_nth
        copy_hand_def copy_array_length copy_array_nth)
  have marker: "DTrack_get_num_marker ?d' = getNumMarker s' \<and>
     int (length (act_marker ?d')) = getNumMarker s' \<and>
     (\<forall>i<length (act_marker ?d'). \<exists>src. getMarker s' (int i) = Some src \<and>
        m_id (act_marker ?d' ! i) = sm_id src \<and>
        m_quality (act_marker ?d' ! i) = cast (sm_quality src) \<and>
        length (m_loc (act_marker ?d' ! i)) = 3 \<and>
        (\<forall>j<3. m_loc (act_marker ?d' ! i) ! j = cast (sm_loc src ! j)))"
    by (simp add: DTrack_get_num_marker_def getNumMarker_def getMarker_def sdk_get_nth
        copy_marker_def copy_array_length copy_array_nth)
  show ?thesis
    by (rule exI [of _ ?d'], rule conjI [OF r], rule conjI [OF body],
        rule conjI [OF flystick], rule conjI [OF meatool], rule conjI [OF hand], rule marker)
qed

theorem receive_success_stores_frame_witness:
  "ex_recv_frame (sdk (ex_DTrack\<lparr>sdk := ex_sdk_empty\<rparr>)) = (True, ex_sdk) \<and>
   (\<exists>d'. DTrack_receive ex_recv_frame (\<lambda>x. x) (ex_DTrack\<lparr>sdk := ex_sdk_empty\<rparr>) =
            Inr (True, d') \<and>
      DTrack_get_num_body d' = 1 \<and> length (act_body d') = 1 \<and>
      b_id (act_body d' ! 0) = 0 \<and> b_quality (act_body d' ! 0) = 99 / 100 \<and>
      b_loc (act_body d' ! 0) = [100, 200, 300] \<and>
      b_rot (act_body d' ! 0) = [1, 0, 0, 0, 1, 0, 0, 0, 1] \<and>
      length (act_marker d') = 1 \<and> m_id (act_marker d' ! 0) = 1)"
proof -
  have h: "ex_recv_frame (sdk (ex_DTrack\<lparr>sdk := ex_sdk_empty\<rparr>)) = (True, ex_sdk)"
    by (simp add: ex_recv_frame_def)
  from h receive_success_stores_frame
    [of ex_recv_frame "ex_DTrack\<lparr>sdk := ex_sdk_empty\<rparr>" ex_sdk "\<lambda>x. x"]
  obtain d' where
    r: "DTrack_receive ex_recv_frame (\<lambda>x. x) (ex_DTrack\<lparr>sdk := ex_sdk_empty\<rparr>) = Inr (True, d')"
    by blast
  then have d': "d' = ex_DTrack"
    by (simp add: ex_DTrack_received)
  have "DTrack_get_num_body ex_DTrack = 1 \<and> length (act_body ex_DTrack) = 1 \<and>
      b_id (act_body ex_DTrack ! 0) = 0 \<and> b_quality (act_body ex_DTrack ! 0) = 99 / 100 \<and>
      b_loc (act_body ex_DTrack ! 0) = [100, 200, 300] \<and>
      b_rot (act_body ex_DTrack ! 0) = [1, 0, 0, 0, 1, 0, 0, 0, 1] \<and>
      length (act_marker ex_DTrack) = 1 \<and> m_id (act_marker ex_DTrack ! 0) = 1"
    by (simp add: DTrack_get_num_body_def ex_DTrack_def ex_act_body_def ex_act_marker_def)
  with h r d' show ?thesis
    by blast
qed

subsection \<open>Counts and capacities of the stored flysticks and hands\<close>

text \<open>
  Claim C8. For every frame the SDK delivers, the flystick and hand records that
  \<^verbatim>\<open>DTrack::receive()\<close> stores have counts within the capacities of their arrays: \<^verbatim>\<open>num_button\<close> is
  at most 16, \<^verbatim>\<open>num_joystick\<close> at most 8 and \<^verbatim>\<open>nfinger\<close> at most 5, the arrays have 16, 8 and 5
  elements, and so each count is the length of the prefix of its array that it marks as valid.
  The frames the SDK delivers are the ones of \<open>sdk_counts_bounded\<close>; the facade copies the counts
  as they are.
\<close>

theorem stored_counts_within_capacity:
  assumes "DTrack_receive recv cast d = Inr (True, d')"
    and "sdk_counts_bounded (sdk d')"
  shows "(\<forall>f\<in>set (act_flystick d').
            fs_num_button f \<le> 16 \<and> length (fs_button f) = 16 \<and>
            length (take (nat (fs_num_button f)) (fs_button f)) = nat (fs_num_button f) \<and>
            fs_num_joystick f \<le> 8 \<and> length (fs_joystick f) = 8 \<and>
            length (take (nat (fs_num_joystick f)) (fs_joystick f)) = nat (fs_num_joystick f)) \<and>
         (\<forall>h\<in>set (act_hand d').
            h_nfinger h \<le> 5 \<and> length (h_finger h) = 5 \<and>
            length (take (nat (h_nfinger h)) (h_finger h)) = nat (h_nfinger h))"
proof (rule conjI; rule ballI)
  fix f assume "f \<in> set (act_flystick d')"
  moreover from assms(1)
  have "act_flystick d' = map (\<lambda>s. copy_flystick cast s zero_flystick) (sdk_flystick (sdk d'))"
    by (simp add: DTrack_receive_true)
  ultimately obtain s where s: "s \<in> set (sdk_flystick (sdk d'))"
    and f: "f = copy_flystick cast s zero_flystick"
    by auto
  from s assms(2) have "sf_num_button s \<le> 16" "sf_num_joystick s \<le> 8"
    by (auto simp: sdk_counts_bounded_def list_all_iff)
  with f show "fs_num_button f \<le> 16 \<and> length (fs_button f) = 16 \<and>
            length (take (nat (fs_num_button f)) (fs_button f)) = nat (fs_num_button f) \<and>
            fs_num_joystick f \<le> 8 \<and> length (fs_joystick f) = 8 \<and>
            length (take (nat (fs_num_joystick f)) (fs_joystick f)) = nat (fs_num_joystick f)"
    by (simp add: copy_flystick_def copy_array_length max_defs)
next
  fix h assume "h \<in> set (act_hand d')"
  moreover from assms(1)
  have "act_hand d' = map (\<lambda>s. copy_hand cast s zero_hand) (sdk_hand (sdk d'))"
    by (simp add: DTrack_receive_true)
  ultimately obtain s where s: "s \<in> set (sdk_hand (sdk d'))"
    and h: "h = copy_hand cast s zero_hand"
    by auto
  from s assms(2) have "sh_nfinger s \<le> 5"
    by (auto simp: sdk_counts_bounded_def list_all_iff)
  with h show "h_nfinger h \<le> 5 \<and> length (h_finger h) = 5 \<and>
            length (take (nat (h_nfinger h)) (h_finger h)) = nat (h_nfinger h)"
    by (simp add: copy_hand_def max_defs)
qed

theorem stored_counts_within_capacity_witness:
  "DTrack_receive ex_recv_frame (\<lambda>x. x) (ex_DTrack\<lparr>sdk := ex_sdk_empty\<rparr>) =
     Inr (True, ex_DTrack) \<and>
   sdk_counts_bounded (sdk ex_DTrack) \<and>
   act_flystick ex_DTrack = [ex_act_flystick] \<and> act_hand ex_DTrack = [ex_act_hand] \<and>
   fs_num_button ex_act_flystick \<le> 16 \<and> length (fs_button ex_act_flystick) = 16 \<and>
   fs_num_joystick ex_act_flystick \<le> 8 \<and> length (fs_joystick ex_act_flystick) = 8 \<and>
   h_nfinger ex_act_hand \<le> 5 \<and> length (h_finger ex_act_hand) = 5"
proof -
  have b: "sdk_counts_bounded (sdk ex_DTrack)"
    by (simp add: sdk_counts_bounded_def ex_DTrack_def ex_sdk_def ex_flystick_def ex_hand_def)
  have v: "act_flystick ex_DTrack = [ex_act_flystick] \<and> act_hand ex_DTrack = [ex_act_hand]"
    by (simp add: ex_DTrack_def)
  from stored_counts_within_capacity [OF ex_DTrack_received b] v ex_DTrack_received b
  show ?thesis by simp
qed

subsection \<open>The accessors\<close>

text \<open>
  Claim C2 says that every accessor of the facades returns the i-th stored element for
  \<open>0 \<le> i < count\<close> and otherwise a dummy record with quality -1 and the requested index as id.
  At index 5, outside the example frame, the dummy of \<^verbatim>\<open>DTrack::get_marker\<close> has the id 0, and
  the dummy of \<^verbatim>\<open>DTracklib::get_body\<close> has the quality 0 and the id 0.
\<close>

theorem accessor_dummy_counterexample:
  "\<not> (0 \<le> (5::int) \<and> 5 < act_num_marker ex_DTrack) \<and>
   m_id (projr (DTrack_get_marker ex_DTrack 5)) \<noteq> 5 \<and>
   \<not> (0 \<le> (5::int) \<and> 5 < act_nbody ex_DTracklib) \<and>
   lb_quality (projr (DTracklib_get_body ex_DTracklib 5)) \<noteq> - 1 \<and>
   lb_id (projr (DTracklib_get_body ex_DTracklib 5)) \<noteq> 5"
  by (simp add: DTrack_get_marker_def DTracklib_get_body_def ex_DTrack_def ex_DTracklib_def
      zero_marker_def zero_body_lib_def)

text \<open>
  Claim C2, amended. Let the count of an entity type be the size of its stored vector, as it is
  after every successful \<^verbatim>\<open>receive()\<close>. For \<open>0 \<le> i < count\<close> every accessor of the three facades
  returns the i-th stored element. For \<open>k \<ge> count\<close> the accessors \<^verbatim>\<open>get_body\<close>, \<^verbatim>\<open>get_flystick\<close>,
  \<^verbatim>\<open>get_meatool\<close> and \<^verbatim>\<open>get_hand\<close> of DTrack and DTrack2 return the zeroed record with quality -1
  and id \<open>k\<close>. For \<open>n < 0\<close> or \<open>n \<ge> count\<close>, \<^verbatim>\<open>get_marker\<close> of DTrack and DTrack2 returns the zeroed
  record with quality -1 and id 0, and the five accessors of DTracklib return the zeroed record,
  whose quality and id are 0.
\<close>

theorem accessor_results:
  "(0 \<le> i \<and> i < act_num_body d \<and> act_num_body d = int (length (act_body d)) \<longrightarrow>
      DTrack_get_body d i = Inr (act_body d ! nat i)) \<and>
   (0 \<le> i \<and> i < act_num_flystick d \<and> act_num_flystick d = int (length (act_flystick d)) \<longrightarrow>
      DTrack_get_flystick d i = Inr (act_flystick d ! nat i)) \<and>
   (0 \<le> i \<and> i < act_num_meatool d \<and> act_num_meatool d = int (length (act_meatool d)) \<longrightarrow>
      DTrack_get_meatool d i = Inr (act_meatool d ! nat i)) \<and>
   (0 \<le> i \<and> i < act_num_hand d \<and> act_num_hand d = int (length (act_hand d)) \<longrightarrow>
      DTrack_get_hand d i = Inr (act_hand d ! nat i)) \<and>
   (0 \<le> i \<and> i < act_num_marker d \<and> act_num_marker d = int (length (act_marker d)) \<longrightarrow>
      DTrack_get_marker d i = Inr (act_marker d ! nat i)) \<and>
   (act_num_body d \<le> k \<longrightarrow>
      DTrack_get_body d k = Inr (zero_body\<lparr>b_id := k, b_quality := - 1\<rparr>)) \<and>
   (act_num_flystick d \<le> k \<longrightarrow>
      DTrack_get_flystick d k = Inr (zero_flystick\<lparr>fs_id := k, fs_quality := - 1\<rparr>)) \<and>
   (act_num_meatool d \<le> k \<longrightarrow>
      DTrack_get_meatool d k = Inr (zero_meatool\<lparr>mt_id := k, mt_quality := - 1\<rparr>)) \<and>
   (act_num_hand d \<le> k \<longrightarrow>
      DTrack_get_hand d k = Inr (zero_hand\<lparr>h_id := k, h_quality := - 1\<rparr>)) \<and>
   (n < 0 \<or> act_num_marker d \<le> n \<longrightarrow>
      DTrack_get_marker d n = Inr (zero_marker\<lparr>m_id := 0, m_quality := - 1\<rparr>)) \<and>
   (0 \<le> i \<and> i < act_num_body2 d2 \<and> act_num_body2 d2 = int (length (act_body2 d2)) \<longrightarrow>
      DTrack2_get_body d2 i = Inr (act_body2 d2 ! nat i)) \<and>
   (0 \<le> i \<and> i < act_num_flystick2 d2 \<and>
    act_num_flystick2 d2 = int (length (act_flystick2 d2)) \<longrightarrow>
      DTrack2_get_flystick d2 i = Inr (act_flystick2 d2 ! nat i)) \<and>
   (0 \<le> i \<and> i < act_num_meatool2 d2 \<and> act_num_meatool2 d2 = int (length (act_meatool2 d2)) \<longrightarrow>
      DTrack2_get_meatool d2 i = Inr (act_meatool2 d2 ! nat i)) \<and>
   (0 \<le> i \<and> i < act_num_hand2 d2 \<and> act_num_hand2 d2 = int (length (act_hand2 d2)) \<longrightarrow>
      DTrack2_get_hand d2 i = Inr (act_hand2 d2 ! nat i)) \<and>
   (0 \<le> i \<and> i < act_num_marker2 d2 \<and> act_num_marker2 d2 = int (length (act_marker2 d2)) \<longrightarrow>
      DTrack2_get_marker d2 i = Inr (act_marker2 d2 ! nat i)) \<and>
   (act_num_body2 d2 \<le> k \<longrightarrow>
      DTrack2_get_body d2 k = Inr (zero_body\<lparr>b_id := k, b_quality := - 1\<rparr>)) \<and>
   (act_num_flystick2 d2 \<le> k \<longrightarrow>
      DTrack2_get_flystick d2 k = Inr (zero_flystick\<lparr>fs_id := k, fs_quality := - 1\<rparr>)) \<and>
   (act_num_meatool2 d2 \<le> k \<longrightarrow>
      DTrack2_get_meatool d2 k = Inr (zero_meatool\<lparr>mt_id := k, mt_quality := - 1\<rparr>)) \<and>
   (act_num_hand2 d2 \<le> k \<longrightarrow>
      DTrack2_get_hand d2 k = Inr (zero_hand\<lparr>h_id := k, h_quality := - 1\<rparr>)) \<and>
   (n < 0 \<or> act_num_marker2 d2 \<le> n \<longrightarrow>
      DTrack2_get_marker d2 n = Inr (zero_marker\<lparr>m_id := 0, m_quality := - 1\<rparr>)) \<and>
   (0 \<le> i \<and> i < act_nbody d3 \<and> act_nbody d3 = int (length (act_body_lib d3)) \<longrightarrow>
      DTracklib_get_body d3 i = Inr (act_body_lib d3 ! nat i)) \<and>
   (0 \<le> i \<and> i < act_nflystick d3 \<and> act_nflystick d3 = int (length (act_flystick_lib d3)) \<longrightarrow>
      DTracklib_get_flystick d3 i = Inr (act_flystick_lib d3 ! nat i)) \<and>
   (0 \<le> i \<and> i < act_nmeatool d3 \<and> act_nmeatool d3 = int (length (act_meatool_lib d3)) \<longrightarrow>
      DTracklib_get_meatool d3 i = Inr (act_meatool_lib d3 ! nat i)) \<and>
   (0 \<le> i \<and> i < act_nglove d3 \<and> act_nglove d3 = int (length (act_glove d3)) \<longrightarrow>
      DTracklib_get_glove d3 i = Inr (act_glove d3 ! nat i)) \<and>
   (0 \<le> i \<and> i < act_nmarker d3 \<and> act_nmarker d3 = int (length (act_marker_lib d3)) \<longrightarrow>
      DTracklib_get_marker d3 i = Inr (act_marker_lib d3 ! nat i)) \<and>
   (n < 0 \<or> act_nbody d3 \<le> n \<longrightarrow>
      DTracklib_get_body d3 n = Inr zero_body_lib \<and>
      lb_quality (zero_body_lib :: 'f3 dtracklib_body_type) = 0 \<and>
      lb_id (zero_body_lib :: 'f3 dtracklib_body_type) = 0) \<and>
   (n < 0 \<or> act_nflystick d3 \<le> n \<longrightarrow>
      DTracklib_get_flystick d3 n = Inr zero_flystick_lib \<and>
      lf_quality (zero_flystick_lib :: 'f3 dtracklib_flystick_type) = 0 \<and>
      lf_id (zero_flystick_lib :: 'f3 dtracklib_flystick_type) = 0) \<and>
   (n < 0 \<or> act_nmeatool d3 \<le> n \<longrightarrow>
      DTracklib_get_meatool d3 n = Inr zero_meatool_lib \<and>
      lt_quality (zero_meatool_lib :: 'f3 dtracklib_meatool_type) = 0 \<and>
      lt_id (zero_meatool_lib :: 'f3 dtracklib_meatool_type) = 0) \<and>
   (n < 0 \<or> act_nglove d3 \<le> n \<longrightarrow>
      DTracklib_get_glove d3 n = Inr zero_hand \<and>
      h_quality (zero_hand :: 'f3 dtrack_hand_type) = 0 \<and>
      h_id (zero_hand :: 'f3 dtrack_hand_type) = 0) \<and>
   (n < 0 \<or> act_nmarker d3 \<le> n \<longrightarrow>
      DTracklib_get_marker d3 n = Inr zero_marker \<and>
      m_quality (zero_marker :: 'f3 dtrack_marker_type) = 0 \<and>
      m_id (zero_marker :: 'f3 dtrack_marker_type) = 0)"
  for d :: "('d, 'f::{zero,one,uminus}) DTrack"
    and d2 :: "('d2, 'f2::{zero,one,uminus}) DTrack2"
    and d3 :: "('d3, 'f3::zero) DTracklib"
proof -
  have dtrack:
    "0 \<le> i \<and> i < act_num_body d \<and> act_num_body d = int (length (act_body d)) \<longrightarrow>
      DTrack_get_body d i = Inr (act_body d ! nat i)"
    "0 \<le> i \<and> i < act_num_flystick d \<and> act_num_flystick d = int (length (act_flystick d)) \<longrightarrow>
      DTrack_get_flystick d i = Inr (act_flystick d ! nat i)"
    "0 \<le> i \<and> i < act_num_meatool d \<and> act_num_meatool d = int (length (act_meatool d)) \<longrightarrow>
      DTrack_get_meatool d i = Inr (act_meatool d ! nat i)"
    "0 \<le> i \<and> i < act_num_hand d \<and> act_num_hand d = int (length (act_hand d)) \<longrightarrow>
      DTrack_get_hand d i = Inr (act_hand d ! nat i)"
    "0 \<le> i \<and> i < act_num_marker d \<and> act_num_marker d = int (length (act_marker d)) \<longrightarrow>
      DTrack_get_marker d i = Inr (act_marker d ! nat i)"
    "act_num_body d \<le> k \<longrightarrow>
      DTrack_get_body d k = Inr (zero_body\<lparr>b_id := k, b_quality := - 1\<rparr>)"
    "act_num_flystick d \<le> k \<longrightarrow>
      DTrack_get_flystick d k = Inr (zero_flystick\<lparr>fs_id := k, fs_quality := - 1\<rparr>)"
    "act_num_meatool d \<le> k \<longrightarrow>
      DTrack_get_meatool d k = Inr (zero_meatool\<lparr>mt_id := k, mt_quality := - 1\<rparr>)"
    "act_num_hand d \<le> k \<longrightarrow>
      DTrack_get_hand d k = Inr (zero_hand\<lparr>h_id := k, h_quality := - 1\<rparr>)"
    "n < 0 \<or> act_num_marker d \<le> n \<longrightarrow>
      DTrack_get_marker d n = Inr (zero_marker\<lparr>m_id := 0, m_quality := - 1\<rparr>)"
    by (auto simp: DTrack_get_body_def DTrack_get_flystick_def DTrack_get_meatool_def
        DTrack_get_hand_def DTrack_get_marker_def vector_index_def)
  have dtrack2:
    "0 \<le> i \<and> i < act_num_body2 d2 \<and> act_num_body2 d2 = int (length (act_body2 d2)) \<longrightarrow>
      DTrack2_get_body d2 i = Inr (act_body2 d2 ! nat i)"
    "0 \<le> i \<and> i < act_num_flystick2 d2 \<and>
     act_num_flystick2 d2 = int (length (act_flystick2 d2)) \<longrightarrow>
      DTrack2_get_flystick d2 i = Inr (act_flystick2 d2 ! nat i)"
    "0 \<le> i \<and> i < act_num_meatool2 d2 \<and> act_num_meatool2 d2 = int (length (act_meatool2 d2)) \<longrightarrow>
      DTrack2_get_meatool d2 i = Inr (act_meatool2 d2 ! nat i)"
    "0 \<le> i \<and> i < act_num_hand2 d2 \<and> act_num_hand2 d2 = int (length (act_hand2 d2)) \<longrightarrow>
      DTrack2_get_hand d2 i = Inr (act_hand2 d2 ! nat i)"
    "0 \<le> i \<and> i < act_num_marker2 d2 \<and> act_num_marker2 d2 = int (length (act_marker2 d2)) \<longrightarrow>
      DTrack2_get_marker d2 i = Inr (act_marker2 d2 ! nat i)"
    "act_num_body2 d2 \<le> k \<longrightarrow>
      DTrack2_get_body d2 k = Inr (zero_body\<lparr>b_id := k, b_quality := - 1\<rparr>)"
    "act_num_flystick2 d2 \<le> k \<longrightarrow>
      DTrack2_get_flystick d2 k = Inr (zero_flystick\<lparr>fs_id := k, fs_quality := - 1\<rparr>)"
    "act_num_meatool2 d2 \<le> k \<longrightarrow>
      DTrack2_get_meatool d2 k = Inr (zero_meatool\<lparr>mt_id := k, mt_quality := - 1\<rparr>)"
    "act_num_hand2 d2 \<le> k \<longrightarrow>
      DTrack2_get_hand d2 k = Inr (zero_hand\<lparr>h_id := k, h_quality := - 1\<rparr>)"
    "n < 0 \<or> act_num_marker2 d2 \<le> n \<longrightarrow>
      DTrack2_get_marker d2 n = Inr (zero_marker\<lparr>m_id := 0, m_quality := - 1\<rparr>)"
    by (auto simp: DTrack2_get_body_def DTrack2_get_flystick_def DTrack2_get_meatool_def
        DTrack2_get_hand_def DTrack2_get_marker_def vector_index_def)
  have dtracklib:
    "0 \<le> i \<and> i < act_nbody d3 \<and> act_nbody d3 = int (length (act_body_lib d3)) \<longrightarrow>
      DTracklib_get_body d3 i = Inr (act_body_lib d3 ! nat i)"
    "0 \<le> i \<and> i < act_nflystick d3 \<and> act_nflystick d3 = int (length (act_flystick_lib d3)) \<longrightarrow>
      DTracklib_get_flystick d3 i = Inr (act_flystick_lib d3 ! nat i)"
    "0 \<le> i \<and> i < act_nmeatool d3 \<and> act_nmeatool d3 = int (length (act_meatool_lib d3)) \<longrightarrow>
      DTracklib_get_meatool d3 i = Inr (act_meatool_lib d3 ! nat i)"
    "0 \<le> i \<and> i < act_nglove d3 \<and> act_nglove d3 = int (length (act_glove d3)) \<longrightarrow>
      DTracklib_get_glove d3 i = Inr (act_glove d3 ! nat i)"
    "0 \<le> i \<and> i < act_nmarker d3 \<and> act_nmarker d3 = int (length (act_marker_lib d3)) \<longrightarrow>
      DTracklib_get_marker d3 i = Inr (act_marker_lib d3 ! nat i)"
    by (auto simp: DTracklib_get_body_def DTracklib_get_flystick_def DTracklib_get_meatool_def
        DTracklib_get_glove_def DTracklib_get_marker_def vector_index_def)
  have dtracklib_dummy:
    "n < 0 \<or> act_nbody d3 \<le> n \<longrightarrow>
      DTracklib_get_body d3 n = Inr zero_body_lib \<and>
      lb_quality (zero_body_lib :: 'f3 dtracklib_body_type) = 0 \<and>
      lb_id (zero_body_lib :: 'f3 dtracklib_body_type) = 0"
    "n < 0 \<or> act_nflystick d3 \<le> n \<longrightarrow>
      DTracklib_get_flystick d3 n = Inr zero_flystick_lib \<and>
      lf_quality (zero_flystick_lib :: 'f3 dtracklib_flystick_type) = 0 \<and>
      lf_id (zero_flystick_lib :: 'f3 dtracklib_flystick_type) = 0"
    "n < 0 \<or> act_nmeatool d3 \<le> n \<longrightarrow>
      DTracklib_get_meatool d3 n = Inr zero_meatool_lib \<and>
      lt_quality (zero_meatool_lib :: 'f3 dtracklib_meatool_type) = 0 \<and>
      lt_id (zero_meatool_lib :: 'f3 dtracklib_meatool_type) = 0"
    "n < 0 \<or> act_nglove d3 \<le> n \<longrightarrow>
      DTracklib_get_glove d3 n = Inr zero_hand \<and>
      h_quality (zero_hand :: 'f3 dtrack_hand_type) = 0 \<and>
      h_id (zero_hand :: 'f3 dtrack_hand_type) = 0"
    "n < 0 \<or> act_nmarker d3 \<le> n \<longrightarrow>
      DTracklib_get_marker d3 n = Inr zero_marker \<and>
      m_quality (zero_marker :: 'f3 dtrack_marker_type) = 0 \<and>
      m_id (zero_marker :: 'f3 dtrack_marker_type) = 0"
    by (auto simp: DTracklib_get_body_def DTracklib_get_flystick_def DTracklib_get_meatool_def
        DTracklib_get_glove_def DTracklib_get_marker_def zero_defs)
  from dtrack dtrack2 dtracklib dtracklib_dummy show ?thesis
    by (intro conjI)
qed

theorem accessor_results_witness:
  "DTrack_get_body ex_DTrack 0 = Inr ex_act_body \<and>
   DTrack_get_flystick ex_DTrack 0 = Inr ex_act_flystick \<and>
   DTrack_get_meatool ex_DTrack 0 = Inr ex_act_meatool \<and>
   DTrack_get_hand ex_DTrack 0 = Inr ex_act_hand \<and>
   DTrack_get_marker ex_DTrack 0 = Inr ex_act_marker \<and>
   DTrack_get_body ex_DTrack 1 = Inr (zero_body\<lparr>b_id := 1, b_quality := - 1\<rparr>) \<and>
   DTrack_get_hand ex_DTrack 1 = Inr (zero_hand\<lparr>h_id := 1, h_quality := - 1\<rparr>) \<and>
   DTrack_get_marker ex_DTrack (- 1) = Inr (zero_marker\<lparr>m_id := 0, m_quality := - 1\<rparr>) \<and>
   DTrack2_get_body ex_DTrack2 0 = Inr ex_act_body \<and>
   DTrack2_get_marker ex_DTrack2 0 = Inr ex_act_marker \<and>
   DTrack2_get_flystick ex_DTrack2 1 = Inr (zero_flystick\<lparr>fs_id := 1, fs_quality := - 1\<rparr>) \<and>
   DTrack2_get_marker ex_DTrack2 (- 1) = Inr (zero_marker\<lparr>m_id := 0, m_quality := - 1\<rparr>) \<and>
   DTracklib_get_body ex_DTracklib 0 = Inr (act_body_lib ex_DTracklib ! 0) \<and>
   DTracklib_get_glove ex_DTracklib 0 = Inr ex_act_hand \<and>
   DTracklib_get_marker ex_DTracklib 0 = Inr ex_act_marker \<and>
   DTracklib_get_body ex_DTracklib (- 1) = Inr zero_body_lib \<and>
   DTracklib_get_marker ex_DTracklib (- 1) = Inr zero_marker"
  using accessor_results [of 0 ex_DTrack 1 "- 1" ex_DTrack2 ex_DTracklib]
  by (simp add: ex_DTrack_def ex_DTrack2_def ex_DTracklib_def)

end
